theory Spec2Isabelle
  imports Main "HOL-Library.Sublist" "HOL-Library.AList"
begin

section \<open>Python primitives used by the three scripts\<close>

text \<open>
  Strings are byte strings (\<open>char list\<close>); a character outside ASCII is its UTF-8 bytes.
  Exceptions are values: every \<open>raise\<close> of the scripts, and every exception of a library
  call that the scripts can observe, is a constructor of \<open>exn\<close>.
\<close>

datatype exn =
    CalledProcessError int
  | FileNotFoundError string
  | FileExistsError string
  | KeyError string
  | ValueError string
  | TypeError string
  | AttributeError string
  | ParserError
  | OtherException string

text \<open>\<open>sep.join(xs)\<close>.\<close>

fun py_join :: "string \<Rightarrow> string list \<Rightarrow> string" where
  "py_join sep [] = []"
| "py_join sep [x] = x"
| "py_join sep (x # y # ys) = x @ sep @ py_join sep (y # ys)"

text \<open>\<open>s.split(c)\<close> for a one-character separator: \<open>''.split('_') == ['']\<close>.\<close>

fun py_split :: "char \<Rightarrow> string \<Rightarrow> string list" where
  "py_split c [] = [[]]"
| "py_split c (x # xs) =
     (if x = c then [] # py_split c xs
      else (case py_split c xs of
              [] \<Rightarrow> [[x]]
            | y # ys \<Rightarrow> (x # y) # ys))"

text \<open>
  \<open>s.replace(old, new)\<close>: every non-overlapping occurrence, scanning from the left.
  With an empty \<open>old\<close> Python inserts \<open>new\<close> before every character and at the end.
\<close>

function py_replace :: "string \<Rightarrow> string \<Rightarrow> string \<Rightarrow> string" where
  "py_replace old new s =
     (if old = [] then new @ concat (map (\<lambda>c. c # new) s)
      else if s = [] then []
      else if prefix old s then new @ py_replace old new (drop (length old) s)
      else hd s # py_replace old new (tl s))"
  by pat_completeness auto
termination
  by (relation "measure (\<lambda>(old, new, s). length s)") (auto simp: neq_Nil_conv)

declare py_replace.simps [simp del]

text \<open>\<open>sub in s\<close> for strings.\<close>

fun py_contains :: "string \<Rightarrow> string \<Rightarrow> bool" where
  "py_contains sub [] = (sub = [])"
| "py_contains sub (c # cs) = (prefix sub (c # cs) \<or> py_contains sub cs)"

text \<open>\<open>str(n)\<close> for an integer: decimal digits, a leading minus sign when negative.\<close>

definition digit_char :: "nat \<Rightarrow> char" where
  "digit_char d = char_of (48 + d)"

function nat_str :: "nat \<Rightarrow> string" where
  "nat_str n = (if n < 10 then [digit_char n] else nat_str (n div 10) @ [digit_char (n mod 10)])"
  by pat_completeness auto
termination
  by (relation "measure id") auto

declare nat_str.simps [simp del]

definition int_str :: "int \<Rightarrow> string" where
  "int_str i = (if i < 0 then CHR ''-'' # nat_str (nat (- i)) else nat_str (nat i))"

text \<open>
  \<open>int(s)\<close> for a string token: an optional sign, then decimal digits, where single
  underscores may separate digits; anything else raises \<open>ValueError\<close>. (Surrounding
  white space, which \<open>int\<close> strips, cannot occur in a token of a white-space separated
  table; digits outside ASCII are not modelled.)
\<close>

definition is_digit :: "char \<Rightarrow> bool" where
  "is_digit c = ((48::nat) \<le> of_char c \<and> of_char c \<le> (57::nat))"

definition digits_val :: "string \<Rightarrow> nat" where
  "digits_val ds = foldl (\<lambda>acc c. 10 * acc + (of_char c - (48::nat))) 0 ds"

definition py_int_digits :: "string \<Rightarrow> nat option" where
  "py_int_digits body =
     (let groups = py_split CHR ''_'' body
      in if list_all (\<lambda>g. g \<noteq> [] \<and> list_all is_digit g) groups
         then Some (digits_val (concat groups)) else None)"

definition py_int :: "string \<Rightarrow> exn + int" where
  "py_int s =
     (let (neg, body) =
            (case s of
               c # cs \<Rightarrow> if c = CHR ''-'' then (True, cs)
                         else if c = CHR ''+'' then (False, cs) else (False, s)
             | [] \<Rightarrow> (False, s))
      in case py_int_digits body of
           None \<Rightarrow> Inl (ValueError s)
         | Some n \<Rightarrow> Inr (if neg then - int n else int n))"

section \<open>The Genotype Recode Converter (individual\_conversion.py)\<close>

subsection \<open>Tables as pandas hands them to the script\<close>

text \<open>
  \<open>pd.read_csv\<close> is a library call: the model starts from the frame it returns. A cell is
  missing (\<open>NaN\<close>), numeric with an integral value, or a text token (in a column that
  pandas could not convert to numbers every token stays a string). A file on disk is
  absent, present but rejected by the parser, or parsed.
\<close>

datatype cell = Missing | Count int | Text string

record dataframe =
  columns :: "string list"
  rows :: "cell list list"

datatype 'a pd_file = Absent | Malformed | Table 'a

record bim_row =
  chr :: string
  rsid :: string
  cm :: string
  pos :: string
  a1 :: string
  a2 :: string

text \<open>What the script prints, one constructor per \<open>print\<close>.\<close>

datatype conv_msg =
    ReadingRaw string
  | ReadingBim string
  | RawShape nat nat
  | FoundVariants nat
  | BimShape nat nat
  | WarningBimNotFound string
  | ConversionCompleted
  | OutputWrittenTo string
  | TotalSamples nat
  | TotalVariants nat
  | ErrorDuringConversion exn

text \<open>
  The working directory of the script: the two inputs, the two outputs, and the
  standard output.
\<close>

record conv_files =
  raw_file :: "dataframe pd_file"
  bim_file :: "bim_row list pd_file"
  output_file :: "string option"
  summary_file :: "string option"
  printed :: "conv_msg list"

definition say :: "conv_msg \<Rightarrow> conv_files \<Rightarrow> conv_files" where
  "say m w = w\<lparr>printed := printed w @ [m]\<rparr>"

definition TAB :: string where
  "TAB = [CHR 0x09]"

definition NL :: string where
  "NL = [CHR 0x0A]"

definition sample_cols :: "string list" where
  "sample_cols = [''FID'', ''IID'', ''PAT'', ''MAT'', ''SEX'', ''PHENOTYPE'']"

text \<open>\<open>raw_data[sample_cols]\<close> raises \<open>KeyError\<close> when one of the labels is no column.\<close>

definition select_sample_cols :: "dataframe \<Rightarrow> exn + unit" where
  "select_sample_cols df =
     (case filter (\<lambda>c. c \<notin> set (columns df)) sample_cols of
        [] \<Rightarrow> Inr ()
      | m # _ \<Rightarrow> Inl (KeyError m))"

definition genotype_cols :: "dataframe \<Rightarrow> string list" where
  "genotype_cols df = filter (\<lambda>col. col \<notin> set sample_cols) (columns df)"

text \<open>\<open>row[col]\<close>: the cell of the row under the column labelled \<open>col\<close>.\<close>

definition cell_at :: "string list \<Rightarrow> cell list \<Rightarrow> string \<Rightarrow> exn + cell" where
  "cell_at cols row col =
     (case map_of (zip cols row) col of
        None \<Rightarrow> Inl (KeyError col)
      | Some v \<Rightarrow> Inr v)"

subsection \<open>How a scalar prints\<close>

text \<open>
  \<open>iterrows\<close> yields each row as one series, so the row has one dtype: \<open>float64\<close> when
  every column is numeric and one of them holds a missing value, \<open>object\<close> when one column
  is text. (Columns of booleans are not modelled.) A text token prints as itself and an
  integer as its decimal digits. How a missing value and a float print, and what
  \<open>astype(str)\<close> makes of them, is decided by the installed pandas and numpy, whose
  versions the repository does not fix: these four behaviours are parameters.
\<close>

record pandas =
  str_nan :: string
  str_float :: "int \<Rightarrow> string"
  astype_nan :: "string option"
  astype_float :: "int \<Rightarrow> string"

datatype dtype = Int64 | Float64 | Object

fun is_text :: "cell \<Rightarrow> bool" where
  "is_text (Text s) = True"
| "is_text c = False"

definition col_dtype :: "cell list \<Rightarrow> dtype" where
  "col_dtype cs =
     (if cs = [] \<or> list_ex is_text cs then Object
      else if Missing \<in> set cs then Float64 else Int64)"

definition column_cells :: "dataframe \<Rightarrow> string \<Rightarrow> cell list" where
  "column_cells df col = List.map_filter (\<lambda>r. map_of (zip (columns df) r) col) (rows df)"

definition row_dtype :: "dataframe \<Rightarrow> dtype" where
  "row_dtype df =
     (let ts = map (\<lambda>c. col_dtype (column_cells df c)) (columns df)
      in if Object \<in> set ts then Object else if Float64 \<in> set ts then Float64 else Int64)"

text \<open>\<open>f"{value}"\<close> for a scalar taken from a row.\<close>

fun py_str :: "pandas \<Rightarrow> bool \<Rightarrow> cell \<Rightarrow> string" where
  "py_str P as_float Missing = str_nan P"
| "py_str P as_float (Text s) = s"
| "py_str P as_float (Count n) = (if as_float then str_float P n else int_str n)"

definition iid_as_float :: "dataframe \<Rightarrow> bool" where
  "iid_as_float df = (row_dtype df = Float64 \<or> col_dtype (column_cells df ''IID'') = Float64)"

text \<open>
  One element of \<open>column.astype(str).tolist()\<close>: \<open>None\<close> stands for a value that is no
  string afterwards, on which \<open>', '.join\<close> raises \<open>TypeError\<close>.
\<close>

fun astype_str :: "pandas \<Rightarrow> bool \<Rightarrow> cell \<Rightarrow> string option" where
  "astype_str P as_float Missing = astype_nan P"
| "astype_str P as_float (Text s) = Some s"
| "astype_str P as_float (Count n) = Some (if as_float then astype_float P n else int_str n)"

subsection \<open>The conversion\<close>

text \<open>One genotype cell: \<open>'NA'\<close> if \<open>pd.isna\<close>, else \<open>str(int(value))\<close>.\<close>

definition genotype_str :: "cell \<Rightarrow> exn + string" where
  "genotype_str v =
     (case v of
        Missing \<Rightarrow> Inr ''NA''
      | Count n \<Rightarrow> Inr (int_str n)
      | Text s \<Rightarrow> (case py_int s of Inl e \<Rightarrow> Inl e | Inr n \<Rightarrow> Inr (int_str n)))"

text \<open>The inner loop over \<open>genotype_cols\<close>, appending to \<open>genotypes\<close>.\<close>

fun genotypes_loop :: "string list \<Rightarrow> cell list \<Rightarrow> string list \<Rightarrow> string list \<Rightarrow> exn + string list" where
  "genotypes_loop cols row genotypes [] = Inr genotypes"
| "genotypes_loop cols row genotypes (col # rest) =
     (case cell_at cols row col of
        Inl e \<Rightarrow> Inl e
      | Inr v \<Rightarrow>
          (case genotype_str v of
             Inl e \<Rightarrow> Inl e
           | Inr g \<Rightarrow> genotypes_loop cols row (genotypes @ [g]) rest))"

text \<open>The outer loop over \<open>raw_data.iterrows()\<close>, appending to \<open>output_lines\<close>.\<close>

fun rows_loop :: "pandas \<Rightarrow> dataframe \<Rightarrow> string list \<Rightarrow> cell list list \<Rightarrow> exn + string list" where
  "rows_loop P df output_lines [] = Inr output_lines"
| "rows_loop P df output_lines (row # rest) =
     (case cell_at (columns df) row ''IID'' of
        Inl e \<Rightarrow> Inl e
      | Inr sample_id \<Rightarrow>
          (case genotypes_loop (columns df) row [] (genotype_cols df) of
             Inl e \<Rightarrow> Inl e
           | Inr genotypes \<Rightarrow>
               rows_loop P df
                 (output_lines @
                    [py_str P (iid_as_float df) sample_id @ TAB @ py_join TAB genotypes])
                 rest))"

text \<open>The header loop of the branch taken when the variant metadata was read.\<close>

fun header_loop :: "string list \<Rightarrow> string list \<Rightarrow> string list" where
  "header_loop header_parts [] = header_parts"
| "header_loop header_parts (col # rest) =
     (if CHR ''_'' \<in> set col
      then (if length (py_split CHR ''_'' col) \<ge> 2
            then header_loop (header_parts @ [col]) rest
            else header_loop header_parts rest)
      else header_loop (header_parts @ [col]) rest)"

text \<open>
  The composite key the script adds to every metadata row. Nothing reads it afterwards: the
  header is built from the column names of the allele-count table alone.
\<close>

definition var_id :: "bim_row \<Rightarrow> string" where
  "var_id r = rsid r @ ''_'' @ a1 r"

definition header_line :: "bool \<Rightarrow> dataframe \<Rightarrow> string" where
  "header_line have_bim df =
     (if have_bim then py_join TAB (header_loop [''IID''] (genotype_cols df))
      else py_join TAB ([''IID''] @ genotype_cols df))"

text \<open>
  The summary file is written line by line. The last line joins the sample identifiers
  after \<open>astype(str)\<close>; when that raises, the seven lines before it are in the file already.
\<close>

definition summary_head :: "string \<Rightarrow> string \<Rightarrow> string \<Rightarrow> dataframe \<Rightarrow> string" where
  "summary_head raw_name bim_name out_name df =
     ''Conversion Summary'' @ NL @
     ''=================='' @ NL @
     ''Input raw file: '' @ raw_name @ NL @
     ''Input BIM file: '' @ bim_name @ NL @
     ''Output file: '' @ out_name @ NL @
     ''Total samples: '' @ nat_str (length (rows df)) @ NL @
     ''Total variants: '' @ nat_str (length (genotype_cols df)) @ NL"

definition sample_ids_line :: "pandas \<Rightarrow> dataframe \<Rightarrow> exn + string" where
  "sample_ids_line P df =
     (case those (map (astype_str P (col_dtype (column_cells df ''IID'') = Float64))
                    (column_cells df ''IID'')) of
        None \<Rightarrow> Inl (TypeError ''sequence item: expected str instance'')
      | Some ids \<Rightarrow> Inr (''Sample IDs: '' @ py_join '', '' ids @ NL))"

definition raw_name :: string where
  "raw_name = ''individual_1.raw''"

definition output_name :: string where
  "output_name = ''individual_genotypes2.input''"

text \<open>
  The body of the \<open>try\<close> block. \<open>bim_name\<close> is the value of the script's \<open>bim_file\<close>
  constant (\<open>HT.bim\<close> until the orchestrator patches it). The result pairs the exception
  that left the block, if any, with the files as they are at that moment.
\<close>

definition try_body :: "pandas \<Rightarrow> string \<Rightarrow> conv_files \<Rightarrow> (exn + unit) \<times> conv_files" where
  "try_body P bim_name w =
     (case raw_file w of
        Absent \<Rightarrow> (Inl (FileNotFoundError (''Raw file not found: '' @ raw_name)), w)
      | Malformed \<Rightarrow> (Inl ParserError, w)
      | Table df \<Rightarrow>
          (let w1 = say (RawShape (length (rows df)) (length (columns df))) w
           in case select_sample_cols df of
                Inl e \<Rightarrow> (Inl e, w1)
              | Inr u \<Rightarrow>
                  (let w2 = say (FoundVariants (length (genotype_cols df))) w1
                   in case bim_file w2 of
                        Malformed \<Rightarrow> (Inl ParserError, w2)
                      | other \<Rightarrow>
                          (let have_bim = (other \<noteq> Absent);
                               w3 = (case other of
                                       Table bim \<Rightarrow> say (BimShape (length bim) 6) w2
                                     | _ \<Rightarrow> say (WarningBimNotFound bim_name) w2);
                               output_lines = [header_line have_bim df]
                           in case rows_loop P df output_lines (rows df) of
                                Inl e \<Rightarrow> (Inl e, w3)
                              | Inr output_lines' \<Rightarrow>
                                  (let w4 = w3\<lparr>output_file := Some (py_join NL output_lines')\<rparr>;
                                       w5 = say (TotalVariants (length (genotype_cols df)))
                                              (say (TotalSamples (length (rows df)))
                                                (say (OutputWrittenTo output_name)
                                                  (say ConversionCompleted w4)));
                                       head = summary_head raw_name bim_name output_name df
                                   in case sample_ids_line P df of
                                        Inl e \<Rightarrow> (Inl e, w5\<lparr>summary_file := Some head\<rparr>)
                                      | Inr ids \<Rightarrow>
                                          (Inr (), w5\<lparr>summary_file := Some (head @ ids)\<rparr>))))))"

text \<open>\<open>convert_genotypes\<close>: the \<open>try\<close> block under its catch-all handler.\<close>

definition convert_genotypes :: "pandas \<Rightarrow> string \<Rightarrow> conv_files \<Rightarrow> bool \<times> conv_files" where
  "convert_genotypes P bim_name w =
     (case try_body P bim_name (say (ReadingBim bim_name) (say (ReadingRaw raw_name) w)) of
        (Inr u, w') \<Rightarrow> (True, w')
      | (Inl e, w') \<Rightarrow> (False, say (ErrorDuringConversion e) w'))"

text \<open>
  \<open>main\<close>: the exit status passed to \<open>sys.exit\<close>. (The listing of the working directory
  that \<open>main\<close> prints first is left out.)
\<close>

definition conversion_main :: "pandas \<Rightarrow> string \<Rightarrow> conv_files \<Rightarrow> int \<times> conv_files" where
  "conversion_main P bim_name w =
     (case convert_genotypes P bim_name w of
        (True, w') \<Rightarrow> (0, w')
      | (False, w') \<Rightarrow> (1, w'))"

subsection \<open>Reading the output back, and the input format\<close>

text \<open>
  The output is text. Its rows are the pieces between line feeds and its fields the pieces
  between tabs; these two functions are how a consumer of the file sees it.
\<close>

definition text_lines :: "string \<Rightarrow> string list" where
  "text_lines t = py_split (CHR 0x0A) t"

definition line_fields :: "string \<Rightarrow> string list" where
  "line_fields l = py_split (CHR 0x09) l"

text \<open>The cell of a row under a column, and the sample identifier as the script prints it.\<close>

definition cell_of :: "dataframe \<Rightarrow> cell list \<Rightarrow> string \<Rightarrow> cell" where
  "cell_of df row col =
     (case cell_at (columns df) row col of
        Inl e \<Rightarrow> Missing
      | Inr v \<Rightarrow> v)"

definition sample_id_text :: "pandas \<Rightarrow> dataframe \<Rightarrow> cell list \<Rightarrow> string" where
  "sample_id_text P df row =
     (case cell_at (columns df) row ''IID'' of
        Inl e \<Rightarrow> []
      | Inr v \<Rightarrow> py_str P (iid_as_float df) v)"

text \<open>The text of one genotype cell of a row, where the conversion of the cell succeeds.\<close>

definition genotype_text :: "dataframe \<Rightarrow> cell list \<Rightarrow> string \<Rightarrow> string" where
  "genotype_text df row col =
     (case cell_at (columns df) row col of
        Inl e \<Rightarrow> []
      | Inr v \<Rightarrow> (case genotype_str v of Inl e \<Rightarrow> [] | Inr g \<Rightarrow> g))"

text \<open>
  The value mapping in the words of the specification: the missing value is \<open>NA\<close>, each of
  0, 1, 2 is its decimal string, and nothing else is a valid input.
\<close>

fun spec_genotype_text :: "cell \<Rightarrow> string" where
  "spec_genotype_text Missing = ''NA''"
| "spec_genotype_text (Count n) =
     (if n = 0 then ''0'' else if n = 1 then ''1'' else if n = 2 then ''2'' else [])"
| "spec_genotype_text (Text s) = []"

text \<open>
  The allele-count table format: a genotype is missing or one of 0, 1, 2. A frame parsed
  from a white-space separated file has distinct column labels, rows as wide as the header,
  and no white space inside a label or token; the format adds the six identity columns.
\<close>

definition valid_genotype :: "cell \<Rightarrow> bool" where
  "valid_genotype v = (v = Missing \<or> v = Count 0 \<or> v = Count 1 \<or> v = Count 2)"

definition is_space :: "char \<Rightarrow> bool" where
  "is_space c = (c \<in> set [CHR 0x20, CHR 0x09, CHR 0x0A, CHR 0x0B, CHR 0x0C, CHR 0x0D])"

definition no_space :: "string \<Rightarrow> bool" where
  "no_space s = (\<not> list_ex is_space s)"

fun token_ok :: "cell \<Rightarrow> bool" where
  "token_ok (Text s) = no_space s"
| "token_ok c = True"

definition cell_ok :: "string \<times> cell \<Rightarrow> bool" where
  "cell_ok p =
     (case p of (col, v) \<Rightarrow>
        token_ok v \<and> (col \<notin> set sample_cols \<longrightarrow> valid_genotype v))"

definition frame_ok :: "dataframe \<Rightarrow> bool" where
  "frame_ok df =
     (distinct (columns df) \<and>
      list_all (\<lambda>c. c \<in> set (columns df)) sample_cols \<and>
      list_all no_space (columns df) \<and>
      list_all (\<lambda>r. length r = length (columns df) \<and> list_all cell_ok (zip (columns df) r))
        (rows df))"

text \<open>Every sample of the table has an identifier.\<close>

definition ids_present :: "dataframe \<Rightarrow> bool" where
  "ids_present df = (Missing \<notin> set (column_cells df ''IID''))"

text \<open>The library prints a missing value and a float without white space.\<close>

definition lib_ok :: "pandas \<Rightarrow> bool" where
  "lib_ok P = (no_space (str_nan P) \<and> (\<forall>n. no_space (str_float P n)))"

text \<open>The line the outer loop appends for a row whose cells all convert.\<close>

definition row_line :: "pandas \<Rightarrow> dataframe \<Rightarrow> cell list \<Rightarrow> string" where
  "row_line P df row =
     sample_id_text P df row @ TAB @ py_join TAB (map (genotype_text df row) (genotype_cols df))"

section \<open>The file system and the outside world\<close>

text \<open>
  The file system is an ordered table from path strings, as the scripts write them, to
  nodes. The order stands for the order in which the operating system lists a directory:
  rewriting a file keeps its place, a new file goes to the end. Opening a path for writing
  always succeeds and permission bits are not modelled, so \<open>os.chmod\<close> leaves the table
  as it is.
\<close>

type_synonym path = string

datatype node = Dir | File string

type_synonym filesystem = "(path \<times> node) list"

text \<open>
  What the process cannot decide: the home directory, the user and group ids, and what an
  external command does. \<open>subprocess\<close> gives, for a command line, a working directory and
  the file system before, the exception \<open>subprocess.run(..., check=True)\<close> raises, if any,
  and the file system after.

  Three more components stand for what the operating system and the standard library
  know and the table of paths does not. \<open>mkdir_error\<close> is the exception of
  \<open>os.makedirs\<close> on a path that is not in the table (an ancestor that is a regular file,
  a missing permission). \<open>samefile\<close> is \<open>os.path.samefile\<close> on two existing paths: two
  different strings name one file through a link or a \<open>..\<close> component. \<open>glob_magic\<close> is
  \<open>glob.glob\<close> on a pattern whose directory part has a metacharacter in it.
\<close>

record system =
  home :: path
  uid :: string
  gid :: string
  subprocess :: "string list \<Rightarrow> path option \<Rightarrow> filesystem \<Rightarrow> exn option \<times> filesystem"
  mkdir_error :: "filesystem \<Rightarrow> path \<Rightarrow> exn option"
  samefile :: "filesystem \<Rightarrow> path \<Rightarrow> path \<Rightarrow> bool"
  glob_magic :: "filesystem \<Rightarrow> string \<Rightarrow> path list"

text \<open>\<open>os.path.join\<close> (POSIX), for two and for more components.\<close>

definition path_join :: "path \<Rightarrow> path \<Rightarrow> path" where
  "path_join a b =
     (if prefix ''/'' b then b
      else if a = [] \<or> suffix ''/'' a then a @ b
      else a @ ''/'' @ b)"

definition os_path_join :: "path \<Rightarrow> path list \<Rightarrow> path" where
  "os_path_join a bs = foldl path_join a bs"

text \<open>\<open>os.path.basename\<close>: what follows the last slash.\<close>

definition basename :: "path \<Rightarrow> string" where
  "basename p = rev (takeWhile (\<lambda>c. c \<noteq> CHR ''/'') (rev p))"

definition path_exists :: "filesystem \<Rightarrow> path \<Rightarrow> bool" where
  "path_exists files p = (map_of files p \<noteq> None)"

definition write_file :: "path \<Rightarrow> string \<Rightarrow> filesystem \<Rightarrow> filesystem" where
  "write_file p content files = AList.update p (File content) files"

text \<open>\<open>open(p).read()\<close>.\<close>

definition read_file :: "filesystem \<Rightarrow> path \<Rightarrow> exn + string" where
  "read_file files p =
     (case map_of files p of
        None \<Rightarrow> Inl (FileNotFoundError p)
      | Some Dir \<Rightarrow> Inl (OtherException ''IsADirectoryError'')
      | Some (File content) \<Rightarrow> Inr content)"

text \<open>
  \<open>os.makedirs(p, exist_ok=True)\<close>: nothing to do on a directory, \<open>FileExistsError\<close> on a
  regular file, and on a new path what the operating system says. Intermediate
  directories are not tracked.
\<close>

definition makedirs :: "system \<Rightarrow> path \<Rightarrow> filesystem \<Rightarrow> exn + filesystem" where
  "makedirs S p files =
     (case map_of files p of
        Some Dir \<Rightarrow> Inr files
      | Some (File content) \<Rightarrow> Inl (FileExistsError p)
      | None \<Rightarrow>
          (case mkdir_error S files p of
             Some e \<Rightarrow> Inl e
           | None \<Rightarrow> Inr (files @ [(p, Dir)])))"

text \<open>A sequence of \<open>os.makedirs\<close> calls: the first exception ends it.\<close>

fun makedirs_all :: "system \<Rightarrow> path list \<Rightarrow> filesystem \<Rightarrow> exn option \<times> filesystem" where
  "makedirs_all S [] files = (None, files)"
| "makedirs_all S (p # ps) files =
     (case makedirs S p files of
        Inl e \<Rightarrow> (Some e, files)
      | Inr files' \<Rightarrow> makedirs_all S ps files')"

text \<open>
  The entries of a directory, in listing order: the paths that \<open>os.path.join\<close> builds
  from the directory and a name.
\<close>

definition listdir :: "filesystem \<Rightarrow> path \<Rightarrow> string list" where
  "listdir files d =
     map basename (filter (\<lambda>p. basename p \<noteq> [] \<and> p = path_join d (basename p)) (map fst files))"

text \<open>
  \<open>glob.glob(os.path.join(d, "*" + ext))\<close>. The pattern is split at its last slash.
  The directory part is \<open>d\<close> without its trailing slashes; when it has none of the
  metacharacters \<open>*\<close>, \<open>?\<close>, \<open>[\<close>, the result is that directory joined with each of its
  entries that end with \<open>ext\<close> (a pattern that starts with \<open>*\<close> skips names with a leading
  dot). When it has one, \<open>glob\<close> reads the directory part as a pattern too and lists every
  directory that matches it.
\<close>

definition fnmatch_ext :: "string \<Rightarrow> string \<Rightarrow> bool" where
  "fnmatch_ext ext name = (suffix ext name \<and> \<not> prefix ''.'' name)"

definition has_magic :: "string \<Rightarrow> bool" where
  "has_magic s = list_ex (\<lambda>c. c \<in> set ''*?['') s"

definition glob_dirname :: "path \<Rightarrow> path" where
  "glob_dirname d =
     (if list_all (\<lambda>c. c = CHR ''/'') d then d
      else rev (dropWhile (\<lambda>c. c = CHR ''/'') (rev d)))"

definition glob_ext :: "system \<Rightarrow> filesystem \<Rightarrow> path \<Rightarrow> string \<Rightarrow> path list" where
  "glob_ext S files d ext =
     (let dirname = glob_dirname d
      in if has_magic dirname then glob_magic S files (path_join d (''*'' @ ext))
         else map (path_join dirname) (filter (fnmatch_ext ext) (listdir files dirname)))"

text \<open>
  The JSON configuration file \<open>~/.prs_pipeline_config.json\<close>, as \<open>json.load\<close> sees it:
  absent, not JSON, JSON but no object, or an object (its values taken as strings).
\<close>

datatype config_file = NoConfig | BadJson | NotDict | Dict "(string \<times> string) list"

definition cfg_get :: "(string \<times> string) list \<Rightarrow> string \<Rightarrow> string \<Rightarrow> string" where
  "cfg_get cfg key dflt = (case map_of cfg key of None \<Rightarrow> dflt | Some v \<Rightarrow> v)"

definition cfg_of :: "config_file \<Rightarrow> (string \<times> string) list" where
  "cfg_of c = (case c of Dict d \<Rightarrow> d | _ \<Rightarrow> [])"

text \<open>
  The nine steps of the \<open>try\<close> block, named as the specification names them; \<open>Handoff\<close> is
  the copy into the shared ancestry directory (step 6 of the code).
\<close>

datatype stage =
    Validate | Import | NormalizeIds | Score | Recode | Convert | Handoff
  | Ancestry | ParseAncestry | Report

text \<open>What the orchestrators print, one constructor per \<open>print\<close>.\<close>

datatype event =
    RunCmd "string list"
  | Copied path path
  | VcfAndIdRequired
  | PrsDirNotFound string
  | PipelineStarting string
  | UsingPrsDir string
  | UsingBinaries string string string
  | CreatedScript path
  | PatchedConversion path
  | PlaceholderWarning
  | AncestrySkipped exn
  | ParseScriptMissing
  | ReportScriptMissing
  | PipelineCompleted path
  | GeneratedScoreFiles nat "string list"
  | AndMore nat
  | SubprocessFailed exn
  | FileMissing exn
  | Unexpected exn

text \<open>
  The state the orchestrator works on. \<open>trace\<close> is a ghost field: the steps entered so far,
  in order. The code keeps no such list; it is what the printed output lets one reconstruct.
\<close>

record world =
  files :: filesystem
  config :: config_file
  log :: "event list"
  trace :: "stage list"

definition BASE_DIR :: "system \<Rightarrow> path" where
  "BASE_DIR S = os_path_join (home S) [''Desktop'', ''PRS_New'']"

definition emit :: "event \<Rightarrow> world \<Rightarrow> world" where
  "emit ev w = w\<lparr>log := log w @ [ev]\<rparr>"

text \<open>The helper \<open>run\<close>: print the command, then run it and raise if it exits non-zero.\<close>

definition run :: "system \<Rightarrow> string list \<Rightarrow> path option \<Rightarrow> world \<Rightarrow> exn option \<times> world" where
  "run S cmd cwd w =
     (let w1 = emit (RunCmd cmd) w;
          r = subprocess S cmd cwd (files w1)
      in (fst r, w1\<lparr>files := snd r\<rparr>))"

text \<open>
  The helper \<open>safe_copy\<close>. \<open>shutil.copy\<close> copies into \<open>dst\<close> when that is a directory. It
  first asks whether source and target are the same file, which they are when both exist
  and \<open>os.path.samefile\<close> says so (a path that does not exist is the same as none), and
  refuses then; only after that it opens the source.
\<close>

definition same_file :: "system \<Rightarrow> filesystem \<Rightarrow> path \<Rightarrow> path \<Rightarrow> bool" where
  "same_file S fs p q =
     (path_exists fs p \<and> path_exists fs q \<and> (p = q \<or> samefile S fs p q))"

definition safe_copy :: "system \<Rightarrow> path \<Rightarrow> path \<Rightarrow> world \<Rightarrow> exn option \<times> world" where
  "safe_copy S src dst w =
     (let target = (if map_of (files w) dst = Some Dir then path_join dst (basename src) else dst)
      in if same_file S (files w) src target then (Some (OtherException ''SameFileError''), w)
         else
           (case read_file (files w) src of
              Inl e \<Rightarrow> (Some e, w)
            | Inr content \<Rightarrow>
                (None, emit (Copied src dst) (w\<lparr>files := write_file target content (files w)\<rparr>))))"

section \<open>The Score-Script Synthesizer (create\_ett\_score\_script in prs\_gui.py)\<close>

definition script_header :: "path \<Rightarrow> string" where
  \<open>script_header prs_score_dir =
     ''#!/bin/bash'' @ NL @
     NL @
     ''# ETT Score Script - Generated dynamically'' @ NL @
     ''# Usage: ./ETT_score_2.sh <input_prefix> <output_dir>'' @ NL @
     NL @
     ''INPUT_PREFIX=$1'' @ NL @
     ''OUTPUT_DIR=$2'' @ NL @
     ''PRS_SCORE_DIR="'' @ prs_score_dir @ ''"'' @ NL @
     NL @
     ''if [ -z "$INPUT_PREFIX" ] || [ -z "$OUTPUT_DIR" ]; then'' @ NL @
     ''    echo "Usage: $0 <input_prefix> <output_dir>"'' @ NL @
     ''    exit 1'' @ NL @
     ''fi'' @ NL @
     NL @
     ''# Create output directory if it doesn'' @ [CHR 0x27] @ ''t exist'' @ NL @
     ''mkdir -p "$OUTPUT_DIR"'' @ NL @
     NL @
     ''# Process each score file'' @ NL @
     ''echo "Processing PRS scores for $INPUT_PREFIX..."'' @ NL @
     NL\<close>

definition score_command :: "string \<Rightarrow> string \<Rightarrow> string \<Rightarrow> string" where
  \<open>score_command plink2_bin out_name par_name =
     plink2_bin @ '' --bfile "$INPUT_PREFIX" --out "$OUTPUT_DIR/'' @ out_name @ ''" --score "$PRS_SCORE_DIR/'' @ par_name @ ''" 1 2 4 header cols=+scoresums no-mean-imputation''\<close>

definition script_block :: "string \<Rightarrow> string \<Rightarrow> string" where
  \<open>script_block out_name command =
     NL @
     ''echo "Processing '' @ out_name @ ''..."'' @ NL @
     command @ NL @
     ''if [ $? -eq 0 ]; then'' @ NL @
     ''    echo "'' @ [CHR 0xE2, CHR 0x9C, CHR 0x93] @ '' '' @ out_name @ '' completed"'' @ NL @
     ''else'' @ NL @
     ''    echo "'' @ [CHR 0xE2, CHR 0x9C, CHR 0x97] @ '' '' @ out_name @ '' failed"'' @ NL @
     ''fi'' @ NL\<close>

definition script_footer :: string where
  \<open>script_footer =
     NL @
     ''echo "All PRS scores processed!"'' @ NL @
     ''echo "Results saved in: $OUTPUT_DIR"'' @ NL\<close>

text \<open>The loop over \<open>par_files\<close>, appending one block to \<open>script_content\<close> per file.\<close>

fun par_loop :: "string \<Rightarrow> string \<Rightarrow> path list \<Rightarrow> string" where
  "par_loop plink2_bin script_content [] = script_content"
| "par_loop plink2_bin script_content (par_file # rest) =
     (let par_name = basename par_file;
          out_name = py_replace ''.par'' [] par_name;
          command = score_command plink2_bin out_name par_name
      in par_loop plink2_bin (script_content @ script_block out_name command) rest)"

definition script_path :: "system \<Rightarrow> path" where
  "script_path S = os_path_join (BASE_DIR S) [''PRS_Files'', ''ETT_score_2.sh'']"

text \<open>
  \<open>create_ett_score_script\<close>. The configuration is read without a handler here, so a file
  that is not JSON, or holds no object, raises out of the function. The result pairs the
  returned path, or the exception, with the world at that moment.
\<close>

definition create_ett_score_script ::
    "system \<Rightarrow> path \<Rightarrow> string \<Rightarrow> world \<Rightarrow> (exn + path) \<times> world" where
  "create_ett_score_script S prs_score_dir sample_id w =
     (let par_files = glob_ext S (files w) prs_score_dir ''.par''
      in if par_files = []
         then (Inl (FileNotFoundError (''No .par files found in '' @ prs_score_dir)), w)
         else
           (let script_content = script_header prs_score_dir
            in case config w of
                 BadJson \<Rightarrow> (Inl (ValueError ''JSONDecodeError''), w)
               | NotDict \<Rightarrow> (Inl (AttributeError ''get''), w)
               | c \<Rightarrow>
                   (let cfg = cfg_of c;
                        plink2_bin = cfg_get cfg ''plink2'' ''plink2'';
                        script_content' = par_loop plink2_bin script_content par_files @ script_footer;
                        w' = w\<lparr>files := write_file (script_path S) script_content' (files w)\<rparr>
                    in (Inr (script_path S), emit (CreatedScript (script_path S)) w'))))"

section \<open>The Pipeline Orchestrator (run\_pipeline\_cli in prs\_pipeline.py and prs\_gui.py)\<close>

text \<open>
  The command-line arguments after \<open>argparse\<close>: an option that was not given is \<open>None\<close>.
  \<open>falsy\<close> is Python's \<open>not x\<close> on such a value.
\<close>

record cli_args =
  vcf_arg :: "string option"
  id_arg :: "string option"
  phenotype_arg :: "string option"
  sex_arg :: "string option"
  age_arg :: "string option"
  prs_dir_arg :: "string option"

definition falsy :: "string option \<Rightarrow> bool" where
  "falsy x = (x = None \<or> x = Some [])"

text \<open>The local variables of \<open>run_pipeline_cli\<close> that the steps read.\<close>

record locals =
  vcf :: path
  sample_id :: string
  plink_bin :: string
  plink2_bin :: string
  docker_bin :: string
  prs_score_dir :: path

text \<open>
  How a run ends: it returned before the \<open>try\<close> block (\<open>Rejected\<close>), the block ran to its
  end (\<open>Completed\<close>), or an exception left the step named and was caught by one of the
  three handlers (\<open>Failed\<close>).
\<close>

datatype run_state = Rejected | Completed | Failed stage exn

type_synonym step = "world \<Rightarrow> exn option \<times> world"

definition enter :: "stage \<Rightarrow> world \<Rightarrow> world" where
  "enter st w = w\<lparr>trace := trace w @ [st]\<rparr>"

definition raise :: "exn \<Rightarrow> step" where
  "raise e w = (Some e, w)"

text \<open>Statement sequencing inside a step: the rest runs only if nothing was raised.\<close>

definition and_then :: "exn option \<times> world \<Rightarrow> step \<Rightarrow> exn option \<times> world" where
  "and_then r f = (case r of (Some e, w) \<Rightarrow> (Some e, w) | (None, w) \<Rightarrow> f w)"

text \<open>The \<open>try\<close> block: the steps in order, left at the first exception.\<close>

fun run_steps :: "(stage \<times> step) list \<Rightarrow> world \<Rightarrow> (stage \<times> exn) option \<times> world" where
  "run_steps [] w = (None, w)"
| "run_steps ((st, f) # rest) w =
     (case f (enter st w) of
        (Some e, w') \<Rightarrow> (Some (st, e), w')
      | (None, w') \<Rightarrow> run_steps rest w')"

subsection \<open>Paths and command lines\<close>

definition vcf_dir :: "system \<Rightarrow> string \<Rightarrow> path" where
  "vcf_dir S sid = os_path_join (BASE_DIR S) [''VCF_Files'', sid]"

definition prs_dir :: "system \<Rightarrow> string \<Rightarrow> path" where
  "prs_dir S sid = os_path_join (BASE_DIR S) [''PRS_Files'', sid]"

definition ancestry_dir :: "system \<Rightarrow> path" where
  "ancestry_dir S = os_path_join (BASE_DIR S) [''Ancestry'']"

definition prs_scripts_dir :: "system \<Rightarrow> path" where
  "prs_scripts_dir S = os_path_join (BASE_DIR S) [''PRS'']"

definition prs_files_dir :: "system \<Rightarrow> path" where
  "prs_files_dir S = os_path_join (BASE_DIR S) [''PRS_Files'']"

definition ett_score_script :: "system \<Rightarrow> path" where
  "ett_score_script S = os_path_join (prs_files_dir S) [''ETT_score_2.sh'']"

definition ancestry_parse_script :: "system \<Rightarrow> path" where
  "ancestry_parse_script S = os_path_join (prs_scripts_dir S) [''ancestry_data_parse.py'']"

definition report_script :: "system \<Rightarrow> path" where
  "report_script S = os_path_join (prs_scripts_dir S) [''report_all_aut.sh'']"

definition conversion_template :: "system \<Rightarrow> path" where
  "conversion_template S = os_path_join (BASE_DIR S) [''VCF_Files'', ''individual_conversion.py'']"

definition out_prefix :: "system \<Rightarrow> string \<Rightarrow> path" where
  "out_prefix S sid = os_path_join (vcf_dir S sid) [sid]"

definition out_prefix_id :: "system \<Rightarrow> string \<Rightarrow> path" where
  "out_prefix_id S sid = os_path_join (vcf_dir S sid) [sid @ ''_id'']"

definition bim_path :: "system \<Rightarrow> string \<Rightarrow> path" where
  "bim_path S sid = os_path_join (vcf_dir S sid) [sid @ ''_id.bim'']"

definition conversion_dest :: "system \<Rightarrow> string \<Rightarrow> path" where
  "conversion_dest S sid = os_path_join (vcf_dir S sid) [''individual_conversion.py'']"

definition local_geno :: "system \<Rightarrow> string \<Rightarrow> path" where
  "local_geno S sid = os_path_join (vcf_dir S sid) [''individual_genotypes2.input'']"

definition ancestry_geno :: "system \<Rightarrow> path" where
  "ancestry_geno S = os_path_join (ancestry_dir S) [''individual_genotypes2.input'']"

definition import_cmd :: "system \<Rightarrow> locals \<Rightarrow> string list" where
  "import_cmd S L =
     [plink_bin L, ''--vcf'', vcf L, ''--make-bed'', ''--set-missing-var-ids'', ''@:#:$1:$2'',
      ''--out'', out_prefix S (sample_id L), ''--allow-extra-chr'']"

definition normalize_cmd :: "system \<Rightarrow> locals \<Rightarrow> string list" where
  "normalize_cmd S L =
     [plink2_bin L, ''--bfile'', out_prefix S (sample_id L), ''--set-all-var-ids'', ''chr@:#:$r:$a'',
      ''--make-bed'', ''--out'', out_prefix_id S (sample_id L), ''--rm-dup'', ''list'',
      ''--new-id-max-allele-len'', ''10000'']"

definition score_cmd :: "system \<Rightarrow> locals \<Rightarrow> path \<Rightarrow> string list" where
  "score_cmd S L script =
     [''bash'', script, out_prefix_id S (sample_id L), prs_dir S (sample_id L)]"

definition recode_cmd :: "system \<Rightarrow> locals \<Rightarrow> string list" where
  "recode_cmd S L =
     [plink_bin L, ''--bfile'', out_prefix_id S (sample_id L), ''--recode'', ''A'',
      ''--out'', os_path_join (vcf_dir S (sample_id L)) [''individual_1''], ''--allow-extra-chr'']"

definition convert_cmd :: "string list" where
  "convert_cmd = [''python3'', ''individual_conversion.py'']"

definition docker_cmd :: string where
  \<open>docker_cmd =
     ''cd iAdmix && sed '' @ [CHR 0x27] @ ''1!s/^chr//'' @ [CHR 0x27] @ '' ../individual_genotypes2.input > ../individual_genotypes2_nochr.input && ./runancestry.py --freq ../pop_all_ref_final2.input --geno ../individual_genotypes2_nochr.input --out ../sample2.ancestry -c 4 --strand 1 --pr 0''\<close>

definition ancestry_cmd :: "system \<Rightarrow> locals \<Rightarrow> string \<Rightarrow> string list" where
  "ancestry_cmd S L img =
     [docker_bin L, ''run'', ''--ulimit'', ''core=-1'', ''--rm'',
      ''--user'', uid S @ '':'' @ gid S,
      ''-v'', ancestry_dir S @ '':/app'',
      ''-w'', ''/app'',
      img,
      ''bash'', ''-lc'', docker_cmd]"

definition parse_cmd :: "string list" where
  "parse_cmd = [''python'', ''ancestry_data_parse.py'']"

definition report_cmd :: "string list" where
  "report_cmd = [''bash'', ''report_all_aut.sh'']"

subsection \<open>The steps the two scripts share\<close>

definition step0_validate :: "system \<Rightarrow> locals \<Rightarrow> step" where
  "step0_validate S L w =
     (if \<not> path_exists (files w) (vcf L)
      then raise (FileNotFoundError (''VCF file not found: '' @ vcf L)) w
      else (None, emit (UsingBinaries (plink_bin L) (plink2_bin L) (docker_bin L)) w))"

definition step1_import :: "system \<Rightarrow> locals \<Rightarrow> step" where
  "step1_import S L w = run S (import_cmd S L) None w"

definition step2_normalize :: "system \<Rightarrow> locals \<Rightarrow> step" where
  "step2_normalize S L w = run S (normalize_cmd S L) None w"

definition step4_recode :: "system \<Rightarrow> locals \<Rightarrow> step" where
  "step4_recode S L w = run S (recode_cmd S L) None w"

definition step6_handoff :: "system \<Rightarrow> locals \<Rightarrow> step" where
  "step6_handoff S L w = safe_copy S (local_geno S (sample_id L)) (ancestry_geno S) w"

definition step8_parse :: "system \<Rightarrow> locals \<Rightarrow> step" where
  "step8_parse S L w =
     (if path_exists (files w) (ancestry_parse_script S)
      then run S parse_cmd (Some (prs_scripts_dir S)) w
      else (None, emit ParseScriptMissing w))"

definition step9_report :: "system \<Rightarrow> locals \<Rightarrow> step" where
  "step9_report S L w =
     (if path_exists (files w) (report_script S)
      then run S report_cmd (Some (prs_scripts_dir S)) w
      else (None, emit ReportScriptMissing w))"

text \<open>Steps 8 and 9 close the \<open>try\<close> block of both scripts.\<close>

definition last_two_steps :: "system \<Rightarrow> locals \<Rightarrow> (stage \<times> step) list" where
  "last_two_steps S L =
     [(ParseAncestry, step8_parse S L),
      (Report, step9_report S L)]"

text \<open>The three \<open>except\<close> clauses; the last one catches every other exception.\<close>

definition handlers :: "exn \<Rightarrow> world \<Rightarrow> world" where
  "handlers e w =
     (case e of
        CalledProcessError rc \<Rightarrow> emit (SubprocessFailed e) w
      | FileNotFoundError msg \<Rightarrow> emit (FileMissing e) w
      | _ \<Rightarrow> emit (Unexpected e) w)"

definition HT_bim :: string where
  \<open>HT_bim = ''"HT.bim"''\<close>

definition quoted :: "string \<Rightarrow> string" where
  \<open>quoted s = ''"'' @ s @ ''"''\<close>

subsection \<open>prs\_pipeline.py\<close>

definition pipeline_step3_score :: "system \<Rightarrow> locals \<Rightarrow> step" where
  "pipeline_step3_score S L w =
     (if \<not> path_exists (files w) (ett_score_script S)
      then raise (FileNotFoundError (''ETT_score_2.sh not found at '' @ ett_score_script S)) w
      else run S (score_cmd S L (ett_score_script S)) None w)"

definition pipeline_patch_template :: "system \<Rightarrow> locals \<Rightarrow> step" where
  "pipeline_patch_template S L w =
     (if \<not> path_exists (files w) (conversion_template S)
      then raise (FileNotFoundError
                    (''individual_conversion.py not found at '' @ conversion_template S)) w
      else
        (case read_file (files w) (conversion_template S) of
           Inl e \<Rightarrow> raise e w
         | Inr content \<Rightarrow>
             (let content' = py_replace HT_bim (quoted (bim_path S (sample_id L))) content;
                  w1 = w\<lparr>files := write_file (conversion_dest S (sample_id L)) content' (files w)\<rparr>
              in (None, emit (PatchedConversion (bim_path S (sample_id L))) w1))))"

definition pipeline_step5_convert :: "system \<Rightarrow> locals \<Rightarrow> step" where
  "pipeline_step5_convert S L w =
     and_then (pipeline_patch_template S L w)
       (\<lambda>w2. and_then (run S convert_cmd (Some (vcf_dir S (sample_id L))) w2)
          (\<lambda>w3. if \<not> path_exists (files w3) (local_geno S (sample_id L))
                then raise (FileNotFoundError
                              (''Conversion did not produce '' @ local_geno S (sample_id L))) w3
                else (None, w3)))"

definition pipeline_step7_ancestry :: "system \<Rightarrow> locals \<Rightarrow> step" where
  "pipeline_step7_ancestry S L w = run S (ancestry_cmd S L ''ancestry-py27'') None w"

definition pipeline_required_steps :: "system \<Rightarrow> locals \<Rightarrow> (stage \<times> step) list" where
  "pipeline_required_steps S L =
     [(Validate, step0_validate S L),
      (Import, step1_import S L),
      (NormalizeIds, step2_normalize S L),
      (Score, pipeline_step3_score S L),
      (Recode, step4_recode S L),
      (Convert, pipeline_step5_convert S L),
      (Handoff, step6_handoff S L)]"

definition pipeline_last_steps :: "system \<Rightarrow> locals \<Rightarrow> (stage \<times> step) list" where
  "pipeline_last_steps S L = (Ancestry, pipeline_step7_ancestry S L) # last_two_steps S L"

definition pipeline_steps :: "system \<Rightarrow> locals \<Rightarrow> (stage \<times> step) list" where
  "pipeline_steps S L = pipeline_required_steps S L @ pipeline_last_steps S L"

text \<open>
  The local variables of the \<open>try\<close> block, and what stands between the argument check and
  the block: the start message and the creation of the directories of the run, outside any
  handler.
\<close>

definition pipeline_locals :: "(string \<times> string) list \<Rightarrow> path \<Rightarrow> string \<Rightarrow> locals" where
  "pipeline_locals cfg v sid =
     \<lparr>vcf = v, sample_id = sid,
      plink_bin = cfg_get cfg ''plink'' ''plink'',
      plink2_bin = cfg_get cfg ''plink2'' ''plink2'',
      docker_bin = cfg_get cfg ''docker'' ''docker'',
      prs_score_dir = []\<rparr>"

definition pipeline_prepare :: "system \<Rightarrow> string \<Rightarrow> step" where
  "pipeline_prepare S sid w =
     (let w1 = emit (PipelineStarting sid) w;
          r = makedirs_all S [vcf_dir S sid, prs_dir S sid, ancestry_dir S] (files w1)
      in (fst r, w1\<lparr>files := snd r\<rparr>))"

text \<open>
  \<open>run_pipeline_cli\<close> of prs\_pipeline.py. \<open>Inl\<close> is an exception that leaves the function:
  the configuration is read under a handler, but \<open>cfg.get\<close> on a JSON value that is no
  object is outside it, and so is the creation of the directories.
\<close>

definition pipeline_run_pipeline_cli ::
    "system \<Rightarrow> cli_args \<Rightarrow> world \<Rightarrow> (exn + run_state) \<times> world" where
  "pipeline_run_pipeline_cli S a w =
     (if config w = NotDict then (Inl (AttributeError ''get''), w)
      else
        (case (vcf_arg a, id_arg a) of
           (Some v, Some sid) \<Rightarrow>
             if v = [] \<or> sid = [] then (Inr Rejected, emit VcfAndIdRequired w)
             else
               (case pipeline_prepare S sid w of
                  (Some e, w0) \<Rightarrow> (Inl e, w0)
                | (None, w0) \<Rightarrow>
                    (case run_steps (pipeline_steps S (pipeline_locals (cfg_of (config w)) v sid)) w0 of
                       (None, w') \<Rightarrow> (Inr Completed, emit (PipelineCompleted (prs_dir S sid)) w')
                     | (Some (st, e), w') \<Rightarrow> (Inr (Failed st e), handlers e w')))
         | _ \<Rightarrow> (Inr Rejected, emit VcfAndIdRequired w)))"

text \<open>
  The module body: it writes a default configuration if there is none, then, with
  arguments on the command line, calls \<open>run_pipeline_cli\<close>. The exit status of the
  interpreter is 0 when the module body ends and 1 when an exception reaches the top.
\<close>

definition pipeline_module_init :: "world \<Rightarrow> world" where
  "pipeline_module_init w =
     (case config w of
        NoConfig \<Rightarrow>
          w\<lparr>config := Dict [(''plink'', ''plink''), (''plink2'', ''plink2''), (''docker'', ''docker'')]\<rparr>
      | _ \<Rightarrow> w)"

definition pipeline_main :: "system \<Rightarrow> cli_args \<Rightarrow> world \<Rightarrow> int \<times> world" where
  "pipeline_main S a w =
     (case pipeline_run_pipeline_cli S a (pipeline_module_init w) of
        (Inl e, w') \<Rightarrow> (1, w')
      | (Inr st, w') \<Rightarrow> (0, w'))"

subsection \<open>prs\_gui.py\<close>

definition gui_step3_score :: "system \<Rightarrow> locals \<Rightarrow> step" where
  "gui_step3_score S L w =
     (case create_ett_score_script S (prs_score_dir L) (sample_id L) w of
        (Inl e, w') \<Rightarrow> (Some e, w')
      | (Inr script, w') \<Rightarrow> run S (score_cmd S L script) None w')"

definition conversion_stub :: "path \<Rightarrow> string" where
  \<open>conversion_stub bim =
     ''#!/usr/bin/env python3'' @ NL @
     ''import pandas as pd'' @ NL @
     ''import numpy as np'' @ NL @
     NL @
     ''# Read the recoded data'' @ NL @
     ''raw_file = "individual_1.raw"'' @ NL @
     ''bim_file = "'' @ bim @ ''"'' @ NL @
     NL @
     ''# Read raw file'' @ NL @
     ''data = pd.read_csv(raw_file, sep=r'' @ [CHR 0x27, CHR 0x5C] @ ''s+'' @ [CHR 0x27] @ '')'' @ NL @
     NL @
     ''# Read bim file for variant info'' @ NL @
     ''bim = pd.read_csv(bim_file, sep='' @ [CHR 0x27, CHR 0x5C] @ ''t'' @ [CHR 0x27] @ '', header=None, names=['' @ [CHR 0x27] @ ''chr'' @ [CHR 0x27] @ '', '' @ [CHR 0x27] @ ''rsid'' @ [CHR 0x27] @ '', '' @ [CHR 0x27] @ ''cm'' @ [CHR 0x27] @ '', '' @ [CHR 0x27] @ ''pos'' @ [CHR 0x27] @ '', '' @ [CHR 0x27] @ ''a1'' @ [CHR 0x27] @ '', '' @ [CHR 0x27] @ ''a2'' @ [CHR 0x27] @ ''])'' @ NL @
     NL @
     ''# Process and save'' @ NL @
     ''output_file = "individual_genotypes2.input"'' @ NL @
     ''# Add your conversion logic here'' @ NL @
     ''print(f"Conversion completed: {output_file}")'' @ NL\<close>

definition placeholder_text :: string where
  "placeholder_text = ''# Placeholder genotype file'' @ NL"

definition gui_patch_template :: "system \<Rightarrow> locals \<Rightarrow> step" where
  "gui_patch_template S L w =
     (let w0 = (if \<not> path_exists (files w) (conversion_template S)
                then w\<lparr>files := write_file (conversion_template S)
                                   (conversion_stub (bim_path S (sample_id L))) (files w)\<rparr>
                else w)
      in case read_file (files w0) (conversion_template S) of
           Inl e \<Rightarrow> raise e w0
         | Inr content \<Rightarrow>
             (let content' = (if py_contains HT_bim content
                              then py_replace HT_bim (quoted (bim_path S (sample_id L))) content
                              else content);
                  w1 = w0\<lparr>files := write_file (conversion_dest S (sample_id L)) content' (files w0)\<rparr>
              in (None, emit (PatchedConversion (bim_path S (sample_id L))) w1)))"

definition gui_step5_convert :: "system \<Rightarrow> locals \<Rightarrow> step" where
  "gui_step5_convert S L w =
     and_then (gui_patch_template S L w)
       (\<lambda>w2. and_then (run S convert_cmd (Some (vcf_dir S (sample_id L))) w2)
          (\<lambda>w3. if \<not> path_exists (files w3) (local_geno S (sample_id L))
                then (let w4 = emit PlaceholderWarning w3
                      in (None, w4\<lparr>files := write_file (local_geno S (sample_id L))
                                              placeholder_text (files w4)\<rparr>))
                else (None, w3)))"

text \<open>Step 7 has its own handler: whatever the command raises is printed and dropped.\<close>

definition gui_step7_ancestry :: "system \<Rightarrow> locals \<Rightarrow> step" where
  "gui_step7_ancestry S L w =
     (case run S (ancestry_cmd S L ''python'') None w of
        (Some e, w') \<Rightarrow> (None, emit (AncestrySkipped e) w')
      | (None, w') \<Rightarrow> (None, w'))"

definition gui_steps_0_4 :: "system \<Rightarrow> locals \<Rightarrow> (stage \<times> step) list" where
  "gui_steps_0_4 S L =
     [(Validate, step0_validate S L),
      (Import, step1_import S L),
      (NormalizeIds, step2_normalize S L),
      (Score, gui_step3_score S L),
      (Recode, step4_recode S L)]"

definition gui_steps_5_6 :: "system \<Rightarrow> locals \<Rightarrow> (stage \<times> step) list" where
  "gui_steps_5_6 S L =
     [(Convert, gui_step5_convert S L),
      (Handoff, step6_handoff S L)]"

definition gui_required_steps :: "system \<Rightarrow> locals \<Rightarrow> (stage \<times> step) list" where
  "gui_required_steps S L = gui_steps_0_4 S L @ gui_steps_5_6 S L"

definition gui_optional_steps :: "system \<Rightarrow> locals \<Rightarrow> (stage \<times> step) list" where
  "gui_optional_steps S L = (Ancestry, gui_step7_ancestry S L) # last_two_steps S L"

definition gui_steps :: "system \<Rightarrow> locals \<Rightarrow> (stage \<times> step) list" where
  "gui_steps S L = gui_required_steps S L @ gui_optional_steps S L"

text \<open>The listing of the score files after the completion message.\<close>

definition list_score_files :: "system \<Rightarrow> string \<Rightarrow> world \<Rightarrow> world" where
  "list_score_files S sid w =
     (let score_files = glob_ext S (files w) (prs_dir S sid) ''.sscore''
      in if score_files = [] then w
         else
           (let w1 = emit (GeneratedScoreFiles (length score_files)
                             (map basename (take 5 score_files))) w
            in if length score_files > 5 then emit (AndMore (length score_files - 5)) w1 else w1))"

text \<open>
  What stands between the argument check and the \<open>try\<close> block, outside any handler, and
  the local variables of the block.
\<close>

definition gui_prepare :: "system \<Rightarrow> string \<Rightarrow> path \<Rightarrow> step" where
  "gui_prepare S sid score_dir w =
     (let w1 = emit (UsingPrsDir score_dir) (emit (PipelineStarting sid) w);
          r = makedirs_all S
                [vcf_dir S sid, prs_dir S sid, ancestry_dir S, prs_scripts_dir S, prs_files_dir S]
                (files w1)
      in (fst r, w1\<lparr>files := snd r\<rparr>))"

definition gui_locals :: "(string \<times> string) list \<Rightarrow> path \<Rightarrow> string \<Rightarrow> path \<Rightarrow> locals" where
  "gui_locals cfg v sid score_dir =
     \<lparr>vcf = v, sample_id = sid,
      plink_bin = cfg_get cfg ''plink'' ''plink'',
      plink2_bin = cfg_get cfg ''plink2'' ''plink2'',
      docker_bin = cfg_get cfg ''docker'' ''docker'',
      prs_score_dir = score_dir\<rparr>"

definition gui_score_dir :: "cli_args \<Rightarrow> (string \<times> string) list \<Rightarrow> path" where
  "gui_score_dir a cfg =
     (if falsy (prs_dir_arg a) then cfg_get cfg ''prs_score_dir'' []
      else (case prs_dir_arg a of Some d \<Rightarrow> d | None \<Rightarrow> []))"

definition gui_run_pipeline_cli ::
    "system \<Rightarrow> cli_args \<Rightarrow> world \<Rightarrow> (exn + run_state) \<times> world" where
  "gui_run_pipeline_cli S a w =
     (if config w = NotDict then (Inl (AttributeError ''get''), w)
      else
        (let cfg = cfg_of (config w);
             score_dir = gui_score_dir a cfg
         in case (vcf_arg a, id_arg a) of
              (Some v, Some sid) \<Rightarrow>
                if v = [] \<or> sid = [] then (Inr Rejected, emit VcfAndIdRequired w)
                else if score_dir = [] \<or> \<not> path_exists (files w) score_dir
                then (Inr Rejected, emit (PrsDirNotFound score_dir) w)
                else
                  (case gui_prepare S sid score_dir w of
                     (Some e, w0) \<Rightarrow> (Inl e, w0)
                   | (None, w0) \<Rightarrow>
                       (case run_steps (gui_steps S (gui_locals cfg v sid score_dir)) w0 of
                          (None, w') \<Rightarrow>
                            (Inr Completed,
                             list_score_files S sid (emit (PipelineCompleted (prs_dir S sid)) w'))
                        | (Some (st, e), w') \<Rightarrow> (Inr (Failed st e), handlers e w')))
            | _ \<Rightarrow> (Inr Rejected, emit VcfAndIdRequired w)))"

text \<open>
  The module body of prs\_gui.py creates the base directories first, outside any handler,
  then writes a default configuration if there is none.
\<close>

definition gui_module_init :: "system \<Rightarrow> step" where
  "gui_module_init S w =
     (let r = makedirs_all S
                [BASE_DIR S,
                 os_path_join (BASE_DIR S) [''VCF_Files''],
                 os_path_join (BASE_DIR S) [''PRS_Files''],
                 os_path_join (BASE_DIR S) [''Ancestry''],
                 os_path_join (BASE_DIR S) [''PRS'']]
                (files w);
          w1 = w\<lparr>files := snd r\<rparr>
      in case fst r of
           Some e \<Rightarrow> (Some e, w1)
         | None \<Rightarrow>
             (case config w1 of
                NoConfig \<Rightarrow>
                  (None, w1\<lparr>config := Dict [(''plink'', ''plink''), (''plink2'', ''plink2''),
                                            (''docker'', ''docker''), (''prs_score_dir'', [])]\<rparr>)
              | _ \<Rightarrow> (None, w1)))"

definition gui_main :: "system \<Rightarrow> cli_args \<Rightarrow> world \<Rightarrow> int \<times> world" where
  "gui_main S a w =
     (case gui_module_init S w of
        (Some e, w0) \<Rightarrow> (1, w0)
      | (None, w0) \<Rightarrow>
          (case gui_run_pipeline_cli S a w0 of
             (Inl e, w') \<Rightarrow> (1, w')
           | (Inr st, w') \<Rightarrow> (0, w')))"

subsection \<open>Reading a run back\<close>

text \<open>The external commands a run has started, in order, as its output shows them.\<close>

fun commands_run :: "event list \<Rightarrow> string list list" where
  "commands_run [] = []"
| "commands_run (RunCmd cmd # evs) = cmd # commands_run evs"
| "commands_run (ev # evs) = commands_run evs"

section \<open>Concrete inputs\<close>

text \<open>
  The scenario of the specification: header \<open>FID IID PAT MAT SEX PHENOTYPE rs1_A rs2_G\<close>
  and the row \<open>0 S1 0 0 1 -9 0 NA\<close>, with no variant metadata beside it.
\<close>

definition scenario_frame :: dataframe where
  "scenario_frame =
     \<lparr>columns = [''FID'', ''IID'', ''PAT'', ''MAT'', ''SEX'', ''PHENOTYPE'', ''rs1_A'', ''rs2_G''],
      rows = [[Count 0, Text ''S1'', Count 0, Count 0, Count 1, Count (- 9), Count 0, Missing]]\<rparr>"

definition scenario_files :: conv_files where
  "scenario_files =
     \<lparr>raw_file = Table scenario_frame, bim_file = Absent,
      output_file = None, summary_file = None, printed = []\<rparr>"

text \<open>
  Two libraries: one that turns a missing value into the string \<open>nan\<close> under
  \<open>astype(str)\<close>, and one that leaves it missing.
\<close>

definition pandas_nan_text :: pandas where
  "pandas_nan_text =
     \<lparr>str_nan = ''nan'', str_float = (\<lambda>n. int_str n @ ''.0''),
      astype_nan = Some ''nan'', astype_float = (\<lambda>n. int_str n @ ''.0'')\<rparr>"

definition pandas_nan_kept :: pandas where
  "pandas_nan_kept =
     \<lparr>str_nan = ''nan'', str_float = (\<lambda>n. int_str n @ ''.0''),
      astype_nan = None, astype_float = (\<lambda>n. int_str n @ ''.0'')\<rparr>"



text \<open>A well-formed table whose one sample has no identifier (the token \<open>NA\<close>).\<close>

definition no_id_frame :: dataframe where
  "no_id_frame =
     \<lparr>columns = [''FID'', ''IID'', ''PAT'', ''MAT'', ''SEX'', ''PHENOTYPE'', ''rs1_A''],
      rows = [[Text ''F1'', Missing, Count 0, Count 0, Count 1, Count (- 9), Count 2]]\<rparr>"

definition no_id_files :: conv_files where
  "no_id_files =
     \<lparr>raw_file = Table no_id_frame, bim_file = Absent,
      output_file = None, summary_file = None, printed = []\<rparr>"

text \<open>The same table without its \<open>PHENOTYPE\<close> column.\<close>

definition short_frame :: dataframe where
  "short_frame =
     \<lparr>columns = [''FID'', ''IID'', ''PAT'', ''MAT'', ''SEX'', ''rs1_A'', ''rs2_G''],
      rows = [[Count 0, Text ''S1'', Count 0, Count 0, Count 1, Count 0, Missing]]\<rparr>"

definition short_files :: conv_files where
  "short_files =
     \<lparr>raw_file = Table short_frame, bim_file = Absent,
      output_file = None, summary_file = None, printed = []\<rparr>"

text \<open>
  A machine on which every external command succeeds and changes nothing, every
  directory can be created, no two paths name the same file, and no directory name is made
  of glob metacharacters.
\<close>

definition quiet_system :: system where
  "quiet_system =
     \<lparr>home = ''/home/u'', uid = ''1000'', gid = ''1000'',
      subprocess = (\<lambda>cmd cwd fs. (None, fs)),
      mkdir_error = (\<lambda>fs p. None),
      samefile = (\<lambda>fs p q. False),
      glob_magic = (\<lambda>fs pat. [])\<rparr>"

text \<open>A scoring-model directory with one model, whose name has \<open>.par\<close> in it twice.\<close>

definition part_world :: world where
  "part_world =
     \<lparr>files = [(''/scores'', Dir), (''/scores/t2d.part1.par'', File ''weights'')],
      config = NoConfig, log = [], trace = []\<rparr>"

text \<open>A scoring-model directory without any model file.\<close>

definition empty_dir_world :: world where
  "empty_dir_world =
     \<lparr>files = [(''/scores'', Dir), (''/scores/readme.txt'', File ''none'')],
      config = NoConfig, log = [], trace = []\<rparr>"

text \<open>A scoring-model directory with two models, beside an old script and a hidden file.\<close>

definition two_model_world :: world where
  "two_model_world =
     \<lparr>files = [(''/scores'', Dir), (''/scores/bmi.par'', File ''w1''),
               (''/scores/.hidden.par'', File ''w0''), (''/scores/t2d.par'', File ''w2''),
               (''/home/u/Desktop/PRS_New/PRS_Files/ETT_score_2.sh'', File ''old'')],
      config = Dict [(''plink2'', ''/opt/plink2'')], log = [], trace = []\<rparr>"

text \<open>
  A prepared installation: the input, a scoring-model directory with one model, the script
  of an earlier synthesis, the conversion template, a genotype table left by an earlier
  conversion, and the ancestry parser.
\<close>

definition installed_world :: world where
  "installed_world =
     \<lparr>files =
        [(''/data/HB0402.vcf'', File ''vcf''),
         (''/scores'', Dir),
         (''/scores/bmi.par'', File ''weights''),
         (''/home/u/Desktop/PRS_New/PRS_Files/ETT_score_2.sh'', File ''old script''),
         (''/home/u/Desktop/PRS_New/VCF_Files/individual_conversion.py'', File (''bim_file = '' @ HT_bim)),
         (''/home/u/Desktop/PRS_New/VCF_Files/HB0402/individual_genotypes2.input'', File ''IID''),
         (''/home/u/Desktop/PRS_New/PRS/ancestry_data_parse.py'', File ''parser'')],
      config = Dict [(''plink'', ''plink''), (''plink2'', ''plink2''), (''docker'', ''docker'')],
      log = [], trace = []\<rparr>"

definition run_args :: cli_args where
  "run_args =
     \<lparr>vcf_arg = Some ''/data/HB0402.vcf'', id_arg = Some ''HB0402'', phenotype_arg = None,
      sex_arg = None, age_arg = None, prs_dir_arg = Some ''/scores''\<rparr>"

text \<open>
  A machine without a usable container runtime: \<open>docker\<close> exits with status 125, and the
  ancestry parser, which then finds no ancestry output, exits with status 1.
\<close>

definition docker_down_system :: system where
  "docker_down_system =
     quiet_system\<lparr>subprocess := (\<lambda>cmd cwd fs.
         if take 1 cmd = [''docker''] then (Some (CalledProcessError 125), fs)
         else if cmd = parse_cmd then (Some (CalledProcessError 1), fs)
         else (None, fs))\<rparr>"

text \<open>A machine on which the import command exits with status 1.\<close>

definition import_fail_system :: system where
  "import_fail_system =
     quiet_system\<lparr>subprocess := (\<lambda>cmd cwd fs.
         if take 2 cmd = [''plink'', ''--vcf''] then (Some (CalledProcessError 1), fs)
         else (None, fs))\<rparr>"

text \<open>A machine on which \<open>docker\<close> is not installed; every other command succeeds.\<close>

definition no_docker_system :: system where
  "no_docker_system =
     quiet_system\<lparr>subprocess := (\<lambda>cmd cwd fs.
         if take 1 cmd = [''docker''] then (Some (FileNotFoundError ''docker''), fs)
         else (None, fs))\<rparr>"




text \<open>
  A scoring-model directory whose name has a bracket in it. It is empty; the directory
  \<open>/scores/set1\<close> beside it holds a model. \<open>glob\<close> reads \<open>[1]\<close> in the pattern
  \<open>/scores/set[1]/*.par\<close> as a character class, so the pattern names the model files of
  \<open>/scores/set1\<close>.
\<close>

definition bracket_world :: world where
  "bracket_world =
     \<lparr>files = [(''/scores/set[1]'', Dir), (''/scores/set1'', Dir),
               (''/scores/set1/a.par'', File ''weights'')],
      config = NoConfig, log = [], trace = []\<rparr>"

definition bracket_system :: system where
  "bracket_system =
     quiet_system\<lparr>glob_magic := (\<lambda>fs pat.
         if pat = ''/scores/set[1]/*.par''
         then filter (\<lambda>p. p = path_join ''/scores/set1'' (basename p) \<and>
                          fnmatch_ext ''.par'' (basename p)) (map fst fs)
         else [])\<rparr>"

text \<open>The two models of \<open>two_model_world\<close> listed in the other order.\<close>

definition two_model_world_reordered :: world where
  "two_model_world_reordered =
     two_model_world
       \<lparr>files := [(''/scores'', Dir), (''/scores/t2d.par'', File ''w2''),
                  (''/scores/.hidden.par'', File ''w0''), (''/scores/bmi.par'', File ''w1''),
                  (''/home/u/Desktop/PRS_New/PRS_Files/ETT_score_2.sh'', File ''old'')]\<rparr>"



text \<open>
  A run whose sample identifier is the name of the conversion template: the directory of
  the run, \<open>VCF_Files/individual_conversion.py\<close>, is a regular file already.
\<close>

definition template_id_args :: cli_args where
  "template_id_args = run_args\<lparr>id_arg := Some ''individual_conversion.py''\<rparr>"
section \<open>Properties of the Genotype Recode Converter\<close>

subsection \<open>Splitting and joining\<close>

lemma py_split_not_Nil: "py_split c s \<noteq> []"
  by (induction s) (auto split: list.splits)

lemma py_split_length: "c \<in> set s \<Longrightarrow> 2 \<le> length (py_split c s)"
proof (induction s)
  case Nil then show ?case by simp
next
  case (Cons x xs)
  show ?case
  proof (cases "x = c")
    case True
    then show ?thesis using py_split_not_Nil [of c xs] by (cases "py_split c xs") auto
  next
    case False
    with Cons show ?thesis by (auto split: list.splits)
  qed
qed

lemma header_loop_eq: "header_loop acc cols = acc @ cols"
  by (induction cols arbitrary: acc) (auto dest: py_split_length)

lemma py_split_no_sep: "c \<notin> set s \<Longrightarrow> py_split c s = [s]"
  by (induction s) auto

lemma py_split_append_sep:
  "c \<notin> set x \<Longrightarrow> py_split c (x @ c # rest) = x # py_split c rest"
  by (induction x) (auto split: list.splits)

lemma py_split_join:
  "xs \<noteq> [] \<Longrightarrow> \<forall>x\<in>set xs. c \<notin> set x \<Longrightarrow> py_split c (py_join [c] xs) = xs"
proof (induction "[c]" xs rule: py_join.induct)
  case 1 then show ?case by simp
next
  case (2 x) then show ?case by (simp add: py_split_no_sep)
next
  case (3 x y ys)
  then show ?case by (simp add: py_split_append_sep)
qed

lemma digit_char_is_digit: "d < 10 \<Longrightarrow> is_digit (digit_char d)"
  by (simp add: is_digit_def digit_char_def)

lemma nat_str_digits: "list_all is_digit (nat_str n)"
proof (induction n rule: nat_str.induct)
  case (1 n)
  show ?case
  proof (cases "n < 10")
    case True then show ?thesis by (subst nat_str.simps) (simp add: digit_char_is_digit)
  next
    case False
    with 1 show ?thesis by (subst nat_str.simps) (simp add: digit_char_is_digit)
  qed
qed

lemma is_digit_not_space: "is_digit c \<Longrightarrow> \<not> is_space c"
  by (auto simp: is_digit_def is_space_def)

lemma nat_str_no_space: "no_space (nat_str n)"
  using nat_str_digits [of n] is_digit_not_space
  by (auto simp: no_space_def list_ex_iff list_all_iff)

lemma int_str_no_space: "no_space (int_str i)"
  using nat_str_no_space by (auto simp: int_str_def no_space_def is_space_def)

lemma no_space_tab_nl: "no_space s \<Longrightarrow> CHR 0x09 \<notin> set s \<and> CHR 0x0A \<notin> set s"
  by (auto simp: no_space_def list_ex_iff is_space_def)

lemma int_str_small: "int_str 0 = ''0''" "int_str 1 = ''1''" "int_str 2 = ''2''"
  by code_simp+

lemma genotype_str_valid:
  "valid_genotype v \<Longrightarrow> \<exists>g. genotype_str v = Inr g \<and> no_space g"
  using int_str_no_space
  by (auto simp: valid_genotype_def genotype_str_def no_space_def is_space_def)

lemma genotype_str_spec:
  "valid_genotype v \<Longrightarrow> genotype_str v = Inr (spec_genotype_text v)"
  by (auto simp: valid_genotype_def genotype_str_def int_str_small)

lemma py_str_no_space: "lib_ok P \<Longrightarrow> token_ok v \<Longrightarrow> no_space (py_str P b v)"
  using int_str_no_space
  by (cases v) (auto simp: lib_ok_def)

lemma cell_at_zip:
  assumes "length row = length cols" and "col \<in> set cols"
  shows "\<exists>v. cell_at cols row col = Inr v \<and> (col, v) \<in> set (zip cols row)"
proof -
  from assms have "map_of (zip cols row) col \<noteq> None"
    by (simp add: map_of_zip_is_None)
  then obtain v where v: "map_of (zip cols row) col = Some v" by auto
  then have "(col, v) \<in> set (zip cols row)" by (rule map_of_SomeD)
  with v show ?thesis by (simp add: cell_at_def)
qed

lemma genotypes_loop_ok:
  assumes "\<forall>col\<in>set gcols. \<exists>v g. cell_at (columns df) row col = Inr v \<and> genotype_str v = Inr g"
  shows "genotypes_loop (columns df) row acc gcols = Inr (acc @ map (genotype_text df row) gcols)"
  using assms
proof (induction gcols arbitrary: acc)
  case Nil then show ?case by simp
next
  case (Cons col rest)
  then obtain v g where "cell_at (columns df) row col = Inr v" "genotype_str v = Inr g"
    by auto
  with Cons show ?case by (simp add: genotype_text_def)
qed

lemma rows_loop_ok:
  assumes "\<forall>row\<in>set rs. (\<exists>sid. cell_at (columns df) row ''IID'' = Inr sid) \<and>
             (\<forall>col\<in>set (genotype_cols df). \<exists>v g. cell_at (columns df) row col = Inr v \<and> genotype_str v = Inr g)"
  shows "rows_loop P df acc rs = Inr (acc @ map (row_line P df) rs)"
  using assms
proof (induction rs arbitrary: acc)
  case Nil then show ?case by simp
next
  case (Cons row rest)
  then obtain sid where sid: "cell_at (columns df) row ''IID'' = Inr sid" by auto
  from Cons.prems have
    "genotypes_loop (columns df) row [] (genotype_cols df) = Inr ([] @ map (genotype_text df row) (genotype_cols df))"
    by (intro genotypes_loop_ok) simp
  with Cons sid show ?case by (simp add: row_line_def sample_id_text_def)
qed

lemma frame_ok_cell:
  assumes "frame_ok df" and "row \<in> set (rows df)" and "col \<in> set (genotype_cols df)"
  shows "\<exists>v. cell_at (columns df) row col = Inr v \<and> valid_genotype v"
proof -
  from assms(1,2) have len: "length row = length (columns df)"
    and ok: "\<forall>p\<in>set (zip (columns df) row). cell_ok p"
    by (auto simp: frame_ok_def list_all_iff)
  from assms(3) have c: "col \<in> set (columns df)" and n: "col \<notin> set sample_cols"
    by (auto simp: genotype_cols_def)
  from cell_at_zip [OF len c] obtain v where
    v: "cell_at (columns df) row col = Inr v" "(col, v) \<in> set (zip (columns df) row)" by auto
  with ok n have "valid_genotype v" by (auto simp: cell_ok_def)
  with v show ?thesis by blast
qed

lemma genotype_text_spec:
  assumes "frame_ok df" and "row \<in> set (rows df)" and "col \<in> set (genotype_cols df)"
  shows "genotype_text df row col = spec_genotype_text (cell_of df row col)"
    and "valid_genotype (cell_of df row col)"
  using frame_ok_cell [OF assms] genotype_str_spec
  by (auto simp: genotype_text_def cell_of_def)

lemma frame_ok_rows:
  assumes "frame_ok df" and "row \<in> set (rows df)"
  shows "(\<exists>sid. cell_at (columns df) row ''IID'' = Inr sid \<and> token_ok sid) \<and>
         (\<forall>col\<in>set (genotype_cols df). \<exists>v g. cell_at (columns df) row col = Inr v \<and> genotype_str v = Inr g \<and> no_space g)"
proof -
  from assms have len: "length row = length (columns df)"
    and ok: "\<forall>p\<in>set (zip (columns df) row). cell_ok p"
    and iid: "''IID'' \<in> set (columns df)"
    by (auto simp: frame_ok_def list_all_iff sample_cols_def)
  have a: "\<exists>sid. cell_at (columns df) row ''IID'' = Inr sid \<and> token_ok sid"
    using cell_at_zip [OF len iid] ok by (auto simp: cell_ok_def)
  have b: "\<exists>v g. cell_at (columns df) row col = Inr v \<and> genotype_str v = Inr g \<and> no_space g"
    if "col \<in> set (genotype_cols df)" for col
    using frame_ok_cell [OF assms that] genotype_str_valid by blast
  from a b show ?thesis by blast
qed

lemma select_sample_cols_ok: "frame_ok df \<Longrightarrow> select_sample_cols df = Inr ()"
  by (simp add: select_sample_cols_def frame_ok_def list_all_iff filter_empty_conv split: list.splits)

lemma rows_loop_frame_ok:
  "frame_ok df \<Longrightarrow> rows_loop P df acc (rows df) = Inr (acc @ map (row_line P df) (rows df))"
  using frame_ok_rows [of df] by (intro rows_loop_ok) blast

lemma those_astype_str:
  "Missing \<notin> set cs \<Longrightarrow> \<exists>ids. those (map (astype_str P b) cs) = Some ids"
proof (induction cs)
  case Nil then show ?case by simp
next
  case (Cons c cs)
  then show ?case by (cases c) auto
qed

lemma sample_ids_line_ok:
  assumes "ids_present df"
  shows "\<exists>l. sample_ids_line P df = Inr l"
proof -
  from assms have "Missing \<notin> set (column_cells df ''IID'')" by (simp add: ids_present_def)
  from those_astype_str [OF this] obtain ids where
    "those (map (astype_str P (col_dtype (column_cells df ''IID'') = Float64))
       (column_cells df ''IID'')) = Some ids"
    by blast
  then show ?thesis by (simp add: sample_ids_line_def)
qed

lemma sample_ids_line_error: "sample_ids_line P df = Inl e \<Longrightarrow> \<exists>s. e = TypeError s"
  by (auto simp: sample_ids_line_def split: option.splits)

lemma convert_genotypes_output:
  assumes "raw_file w = Table df" and "bim_file w \<noteq> Malformed" and "frame_ok df"
  shows "output_file (snd (convert_genotypes P bim_name w)) =
           Some (py_join NL (py_join TAB (''IID'' # genotype_cols df) # map (row_line P df) (rows df)))"
  using assms(1,2) select_sample_cols_ok [OF assms(3)] rows_loop_frame_ok [OF assms(3)]
  by (cases "bim_file w"; cases "sample_ids_line P df")
     (simp_all add: convert_genotypes_def try_body_def say_def Let_def header_line_def header_loop_eq)

lemma convert_genotypes_succeeds:
  assumes "raw_file w = Table df" and "bim_file w \<noteq> Malformed" and "frame_ok df"
    and "ids_present df"
  shows "fst (convert_genotypes P bim_name w) = True"
proof -
  from sample_ids_line_ok [OF assms(4)] obtain l where "sample_ids_line P df = Inr l" by blast
  then show ?thesis
    using assms(1,2) select_sample_cols_ok [OF assms(3)] rows_loop_frame_ok [OF assms(3)]
    by (cases "bim_file w")
       (simp_all add: convert_genotypes_def try_body_def say_def Let_def)
qed

lemma set_py_join: "set (py_join sep xs) \<subseteq> set sep \<union> (\<Union>x\<in>set xs. set x)"
  by (induction sep xs rule: py_join.induct) auto

lemma py_join_TAB_no_nl:
  assumes "\<forall>x\<in>set xs. no_space x"
  shows "CHR 0x0A \<notin> set (py_join TAB xs)"
proof
  assume "CHR 0x0A \<in> set (py_join TAB xs)"
  with set_py_join [of TAB xs] have "CHR 0x0A \<in> set TAB \<or> (\<exists>x\<in>set xs. CHR 0x0A \<in> set x)"
    by auto
  with assms no_space_tab_nl show False by (auto simp: TAB_def)
qed

lemma line_fields_join:
  assumes "xs \<noteq> []" and "\<forall>x\<in>set xs. no_space x"
  shows "line_fields (py_join TAB xs) = xs"
  unfolding line_fields_def TAB_def
  using assms no_space_tab_nl by (intro py_split_join) auto

lemma line_fields_row:
  assumes "no_space sid" and "\<forall>x\<in>set gs. no_space x"
  shows "line_fields (sid @ TAB @ py_join TAB gs) = sid # (if gs = [] then [[]] else gs)"
proof -
  have "line_fields (sid @ TAB @ py_join TAB gs) = sid # line_fields (py_join TAB gs)"
    using assms(1) no_space_tab_nl [of sid]
    by (simp add: line_fields_def TAB_def py_split_append_sep)
  moreover have "line_fields (py_join TAB gs) = (if gs = [] then [[]] else gs)"
    using line_fields_join [of gs] assms(2) by (simp add: line_fields_def)
  ultimately show ?thesis by simp
qed

lemma text_lines_join:
  assumes "ls \<noteq> []" and "\<forall>l\<in>set ls. CHR 0x0A \<notin> set l"
  shows "text_lines (py_join NL ls) = ls"
  unfolding text_lines_def NL_def using assms by (intro py_split_join) auto

lemma length_columns:
  assumes "frame_ok df"
  shows "length (columns df) = length (genotype_cols df) + 6"
proof -
  let ?cols = "columns df"
  from assms have d: "distinct ?cols" and sub: "set sample_cols \<subseteq> set ?cols"
    by (auto simp: frame_ok_def list_all_iff)
  have "length ?cols = length (filter (\<lambda>c. c \<in> set sample_cols) ?cols) + length (genotype_cols df)"
    using sum_length_filter_compl [of "\<lambda>c. c \<in> set sample_cols" ?cols]
    by (simp add: genotype_cols_def)
  moreover have "length (filter (\<lambda>c. c \<in> set sample_cols) ?cols) = card (set sample_cols)"
  proof -
    have "set (filter (\<lambda>c. c \<in> set sample_cols) ?cols) = set sample_cols" using sub by auto
    moreover have "distinct (filter (\<lambda>c. c \<in> set sample_cols) ?cols)" using d by simp
    ultimately show ?thesis using distinct_card by metis
  qed
  moreover have "card (set sample_cols) = 6" by (simp add: sample_cols_def)
  ultimately show ?thesis by simp
qed

subsection \<open>Shape of the output\<close>

lemma output_lines_aux:
  assumes "frame_ok df" and "lib_ok P"
  defines "hdr \<equiv> py_join TAB (''IID'' # genotype_cols df)"
  defines "out \<equiv> py_join NL (hdr # map (row_line P df) (rows df))"
  shows "text_lines out = hdr # map (row_line P df) (rows df)"
    and "line_fields hdr = ''IID'' # genotype_cols df"
    and "\<forall>row\<in>set (rows df). line_fields (row_line P df row) =
           sample_id_text P df row #
             (if genotype_cols df = [] then [[]] else map (genotype_text df row) (genotype_cols df))"
proof -
  have names: "\<forall>x\<in>set (''IID'' # genotype_cols df). no_space x"
    using assms(1) by (auto simp: frame_ok_def list_all_iff genotype_cols_def no_space_def is_space_def)
  have sid: "no_space (sample_id_text P df row)" if "row \<in> set (rows df)" for row
    using frame_ok_rows [OF assms(1) that] py_str_no_space [OF assms(2)]
    by (auto simp: sample_id_text_def)
  have gs: "\<forall>x\<in>set (map (genotype_text df row) (genotype_cols df)). no_space x"
    if "row \<in> set (rows df)" for row
    using frame_ok_rows [OF assms(1) that] by (fastforce simp: genotype_text_def)
  show fields: "\<forall>row\<in>set (rows df). line_fields (row_line P df row) =
      sample_id_text P df row #
        (if genotype_cols df = [] then [[]] else map (genotype_text df row) (genotype_cols df))"
    using line_fields_row [OF sid gs] by (simp add: row_line_def)
  have nonl: "\<forall>l\<in>set (hdr # map (row_line P df) (rows df)). CHR 0x0A \<notin> set l"
  proof
    fix l assume "l \<in> set (hdr # map (row_line P df) (rows df))"
    then consider "l = hdr" | row where "row \<in> set (rows df)" "l = row_line P df row" by auto
    then show "CHR 0x0A \<notin> set l"
    proof cases
      case 1 then show ?thesis using py_join_TAB_no_nl [OF names] by (simp add: hdr_def)
    next
      case 2
      then show ?thesis
        using py_join_TAB_no_nl [OF gs [OF 2(1)]] no_space_tab_nl [OF sid [OF 2(1)]]
        by (simp add: row_line_def TAB_def)
    qed
  qed
  show "text_lines out = hdr # map (row_line P df) (rows df)"
    unfolding out_def using nonl by (intro text_lines_join) simp_all
  show "line_fields hdr = ''IID'' # genotype_cols df"
    unfolding hdr_def using names by (intro line_fields_join) simp_all
qed

lemma converter_shape_aux:
  assumes "raw_file w = Table df" and "bim_file w \<noteq> Malformed" and "frame_ok df"
    and "lib_ok P"
  shows "\<exists>out. output_file (snd (convert_genotypes P bim_name w)) = Some out \<and>
     length (columns df) = length (genotype_cols df) + 6 \<and>
     text_lines out \<noteq> [] \<and>
     line_fields (hd (text_lines out)) = ''IID'' # genotype_cols df \<and>
     length (tl (text_lines out)) = length (rows df) \<and>
     map (\<lambda>l. hd (line_fields l)) (tl (text_lines out)) = map (sample_id_text P df) (rows df) \<and>
     (genotype_cols df \<noteq> [] \<longrightarrow>
        map line_fields (tl (text_lines out)) =
          map (\<lambda>row. sample_id_text P df row # map (genotype_text df row) (genotype_cols df)) (rows df)) \<and>
     (genotype_cols df = [] \<longrightarrow>
        map line_fields (tl (text_lines out)) =
          map (\<lambda>row. [sample_id_text P df row, []]) (rows df))"
proof -
  let ?hdr = "py_join TAB (''IID'' # genotype_cols df)"
  let ?out = "py_join NL (?hdr # map (row_line P df) (rows df))"
  note aux = output_lines_aux [OF assms(3,4)]
  have w': "output_file (snd (convert_genotypes P bim_name w)) = Some ?out"
    by (rule convert_genotypes_output [OF assms(1-3)])
  have "length (columns df) = length (genotype_cols df) + 6"
    by (rule length_columns [OF assms(3)])
  moreover have "text_lines ?out \<noteq> []" by (simp add: aux(1))
  moreover have "line_fields (hd (text_lines ?out)) = ''IID'' # genotype_cols df"
    by (simp add: aux(1,2))
  moreover have "length (tl (text_lines ?out)) = length (rows df)" by (simp add: aux(1))
  moreover have mf: "map line_fields (tl (text_lines ?out)) =
      map (\<lambda>row. sample_id_text P df row #
             (if genotype_cols df = [] then [[]] else map (genotype_text df row) (genotype_cols df)))
          (rows df)"
    using aux(3) by (simp add: aux(1))
  moreover have "map (\<lambda>l. hd (line_fields l)) (tl (text_lines ?out)) = map (sample_id_text P df) (rows df)"
    using aux(3) by (simp add: aux(1))
  moreover have "genotype_cols df \<noteq> [] \<longrightarrow>
        map line_fields (tl (text_lines ?out)) =
          map (\<lambda>row. sample_id_text P df row # map (genotype_text df row) (genotype_cols df)) (rows df)"
    using mf by (cases "genotype_cols df = []") simp_all
  moreover have "genotype_cols df = [] \<longrightarrow>
        map line_fields (tl (text_lines ?out)) =
          map (\<lambda>row. [sample_id_text P df row, []]) (rows df)"
    using mf by (cases "genotype_cols df = []") simp_all
  ultimately show ?thesis using w' by blast
qed


lemma scenario_frame_ok: "frame_ok scenario_frame"
  by (simp add: frame_ok_def scenario_frame_def sample_cols_def no_space_def is_space_def
      cell_ok_def valid_genotype_def)

lemma pandas_nan_text_ok: "lib_ok pandas_nan_text"
  using int_str_no_space
  by (auto simp: lib_ok_def pandas_nan_text_def no_space_def is_space_def)

lemma pandas_nan_kept_ok: "lib_ok pandas_nan_kept"
  using int_str_no_space
  by (auto simp: lib_ok_def pandas_nan_kept_def no_space_def is_space_def)

lemma scenario_ids_present: "ids_present scenario_frame"
  by (simp add: ids_present_def column_cells_def scenario_frame_def List.map_filter_simps)



subsection \<open>Failure modes\<close>

lemma genotype_str_error: "genotype_str v = Inl e \<Longrightarrow> \<exists>s. e = ValueError s"
  by (auto simp: genotype_str_def py_int_def Let_def split: cell.splits sum.splits option.splits prod.splits)

lemma genotypes_loop_error:
  "genotypes_loop cols row acc gcols = Inl e \<Longrightarrow> (\<exists>s. e = KeyError s) \<or> (\<exists>s. e = ValueError s)"
proof (induction gcols arbitrary: acc)
  case Nil then show ?case by simp
next
  case (Cons col rest)
  then show ?case
    by (auto simp: cell_at_def dest: genotype_str_error split: sum.splits option.splits)
qed

lemma rows_loop_error:
  "rows_loop P df acc rs = Inl e \<Longrightarrow> (\<exists>s. e = KeyError s) \<or> (\<exists>s. e = ValueError s)"
proof (induction rs arbitrary: acc)
  case Nil then show ?case by simp
next
  case (Cons row rest)
  then show ?case
    by (auto simp: cell_at_def dest: genotypes_loop_error split: sum.splits option.splits)
qed

lemma try_body_not_found:
  "(\<exists>m. fst (try_body P bim_name w) = Inl (FileNotFoundError m)) = (raw_file w = Absent)"
proof (cases "raw_file w")
  case Absent then show ?thesis by (simp add: try_body_def)
next
  case Malformed then show ?thesis by (simp add: try_body_def)
next
  case (Table df)
  have "fst (try_body P bim_name w) \<noteq> Inl (FileNotFoundError m)" for m
  proof
    assume a: "fst (try_body P bim_name w) = Inl (FileNotFoundError m)"
    show False
    proof (cases "select_sample_cols df")
      case (Inl e)
      then have "\<exists>s. e = KeyError s"
        by (auto simp: select_sample_cols_def split: list.splits)
      with a Table Inl show False by (auto simp: try_body_def Let_def)
    next
      case (Inr u)
      show False
      proof (cases "bim_file w = Malformed")
        case True
        with a Table Inr show False by (simp add: try_body_def Let_def say_def)
      next
        case False
        let ?h = "[header_line (bim_file w \<noteq> Absent) df]"
        show False
        proof (cases "rows_loop P df ?h (rows df)")
          case (Inl e)
          with a Table Inr False have "e = FileNotFoundError m"
            by (cases "bim_file w") (simp_all add: try_body_def Let_def say_def)
          with rows_loop_error [OF Inl] show False by auto
        next
          case (Inr ls)
          show False
          proof (cases "sample_ids_line P df")
            case (Inl e)
            with a Table \<open>select_sample_cols df = Inr u\<close> False Inr have "e = FileNotFoundError m"
              by (cases "bim_file w") (simp_all add: try_body_def Let_def say_def)
            with sample_ids_line_error [OF Inl] show False by auto
          next
            case ids: (Inr l)
            with a Table \<open>select_sample_cols df = Inr u\<close> False Inr show False
              by (cases "bim_file w") (simp_all add: try_body_def Let_def say_def)
          qed
        qed
      qed
    qed
  qed
  with Table show ?thesis by auto
qed

lemma convert_genotypes_printed:
  assumes "raw_file w = Table df" and "bim_file w \<noteq> Malformed" and "frame_ok df"
    and "ids_present df"
  shows "printed (snd (convert_genotypes P bim_name w)) =
           printed w @
             [ReadingRaw raw_name, ReadingBim bim_name,
              RawShape (length (rows df)) (length (columns df)),
              FoundVariants (length (genotype_cols df)),
              (case bim_file w of
                 Table bim \<Rightarrow> BimShape (length bim) 6
               | _ \<Rightarrow> WarningBimNotFound bim_name),
              ConversionCompleted, OutputWrittenTo output_name,
              TotalSamples (length (rows df)), TotalVariants (length (genotype_cols df))]"
proof -
  from sample_ids_line_ok [OF assms(4)] obtain l where "sample_ids_line P df = Inr l" by blast
  then show ?thesis
    using assms(1,2) select_sample_cols_ok [OF assms(3)] rows_loop_frame_ok [OF assms(3)]
    by (cases "bim_file w")
       (simp_all add: convert_genotypes_def try_body_def say_def Let_def)
qed

text \<open>
  Claim C4, as amended. The \<open>try\<close> block is left with \<open>FileNotFoundError\<close> exactly when the
  allele-count table is absent, and then the conversion fails. Absent variant metadata is no
  error: on a well-formed table in which every sample has an identifier the conversion
  succeeds, the header is \<open>IID\<close> followed by the raw column names, the warning is printed
  and no error message is. (Other conditions are not covered: the catch-all handler turns
  any other exception into a failed conversion.)
\<close>

theorem converter_failure_modes:
  "((\<exists>m. fst (try_body P bim_name w) = Inl (FileNotFoundError m)) = (raw_file w = Absent)) \<and>
   (raw_file w = Absent \<longrightarrow> fst (convert_genotypes P bim_name w) = False) \<and>
   (raw_file w = Table df \<and> frame_ok df \<and> ids_present df \<and> lib_ok P \<and> bim_file w = Absent \<longrightarrow>
      (\<exists>w' out. convert_genotypes P bim_name w = (True, w') \<and>
         output_file w' = Some out \<and>
         line_fields (hd (text_lines out)) = ''IID'' # genotype_cols df \<and>
         WarningBimNotFound bim_name \<in> set (printed w') \<and>
         (\<forall>e. ErrorDuringConversion e \<in> set (printed w') \<longrightarrow>
              ErrorDuringConversion e \<in> set (printed w))))"
proof (intro conjI impI)
  show "(\<exists>m. fst (try_body P bim_name w) = Inl (FileNotFoundError m)) = (raw_file w = Absent)"
    by (rule try_body_not_found)
next
  assume "raw_file w = Absent"
  then show "fst (convert_genotypes P bim_name w) = False"
    by (simp add: convert_genotypes_def try_body_def say_def)
next
  assume a: "raw_file w = Table df \<and> frame_ok df \<and> ids_present df \<and> lib_ok P \<and> bim_file w = Absent"
  then have r: "raw_file w = Table df" and f: "frame_ok df" and b: "bim_file w \<noteq> Malformed"
    and b': "bim_file w = Absent" and i: "ids_present df" and l: "lib_ok P" by simp_all
  obtain w' where c: "convert_genotypes P bim_name w = (True, w')"
    using convert_genotypes_succeeds [OF r b f i, of P bim_name]
    by (cases "convert_genotypes P bim_name w") auto
  from converter_shape_aux [OF r b f l, of bim_name] c obtain out where
    w': "output_file w' = Some out"
        "line_fields (hd (text_lines out)) = ''IID'' # genotype_cols df" by auto
  from convert_genotypes_printed [OF r b f i, of P bim_name] c b'
  have p: "printed w' = printed w @
             [ReadingRaw raw_name, ReadingBim bim_name,
              RawShape (length (rows df)) (length (columns df)),
              FoundVariants (length (genotype_cols df)),
              WarningBimNotFound bim_name,
              ConversionCompleted, OutputWrittenTo output_name,
              TotalSamples (length (rows df)), TotalVariants (length (genotype_cols df))]"
    by simp
  show "\<exists>w' out. convert_genotypes P bim_name w = (True, w') \<and>
         output_file w' = Some out \<and>
         line_fields (hd (text_lines out)) = ''IID'' # genotype_cols df \<and>
         WarningBimNotFound bim_name \<in> set (printed w') \<and>
         (\<forall>e. ErrorDuringConversion e \<in> set (printed w') \<longrightarrow>
              ErrorDuringConversion e \<in> set (printed w))"
    using c w' p by auto
qed

theorem converter_failure_modes_witness:
  "raw_file scenario_files = Table scenario_frame \<and> frame_ok scenario_frame \<and>
   ids_present scenario_frame \<and> lib_ok pandas_nan_kept \<and>
   bim_file scenario_files = Absent \<and>
   (\<exists>w' out. convert_genotypes pandas_nan_kept ''HT.bim'' scenario_files = (True, w') \<and>
      output_file w' = Some out \<and>
      line_fields (hd (text_lines out)) = [''IID'', ''rs1_A'', ''rs2_G''] \<and>
      WarningBimNotFound ''HT.bim'' \<in> set (printed w')) \<and>
   raw_file (scenario_files\<lparr>raw_file := Absent\<rparr>) = Absent \<and>
   fst (convert_genotypes pandas_nan_kept ''HT.bim'' (scenario_files\<lparr>raw_file := Absent\<rparr>)) = False"
proof -
  have h: "raw_file scenario_files = Table scenario_frame \<and> frame_ok scenario_frame \<and>
           ids_present scenario_frame \<and> lib_ok pandas_nan_kept \<and>
           bim_file scenario_files = Absent"
    using scenario_frame_ok scenario_ids_present pandas_nan_kept_ok
    by (simp add: scenario_files_def)
  have g: "genotype_cols scenario_frame = [''rs1_A'', ''rs2_G'']"
    by (simp add: genotype_cols_def scenario_frame_def sample_cols_def)
  have a: "raw_file (scenario_files\<lparr>raw_file := Absent\<rparr>) = Absent" by simp
  from converter_failure_modes [of pandas_nan_kept "''HT.bim''" scenario_files scenario_frame] h
  have "\<exists>w' out. convert_genotypes pandas_nan_kept ''HT.bim'' scenario_files = (True, w') \<and>
      output_file w' = Some out \<and>
      line_fields (hd (text_lines out)) = ''IID'' # genotype_cols scenario_frame \<and>
      WarningBimNotFound ''HT.bim'' \<in> set (printed w')"
    by blast
  moreover from converter_failure_modes [of pandas_nan_kept "''HT.bim''" "scenario_files\<lparr>raw_file := Absent\<rparr>" scenario_frame] a
  have "fst (convert_genotypes pandas_nan_kept ''HT.bim'' (scenario_files\<lparr>raw_file := Absent\<rparr>)) = False"
    by blast
  ultimately show ?thesis using h a by (simp add: g)
qed

text \<open>
  Not every condition other than an absent table degrades without error. A table that
  lacks the \<open>PHENOTYPE\<close> column is present, yet the conversion fails on it with
  \<open>KeyError\<close>. And on a well-formed table in which a sample has no identifier, under a
  library that leaves a missing value missing in \<open>astype(str)\<close>, the conversion writes the
  output and then fails with \<open>TypeError\<close> while it writes the summary.
\<close>

theorem converter_malformed_table_fails:
  "raw_file short_files \<noteq> Absent \<and> bim_file short_files = Absent \<and>
   convert_genotypes pandas_nan_kept ''HT.bim'' short_files =
     (False,
      short_files\<lparr>printed :=
        [ReadingRaw ''individual_1.raw'', ReadingBim ''HT.bim'', RawShape 1 7,
         ErrorDuringConversion (KeyError ''PHENOTYPE'')]\<rparr>) \<and>
   raw_file no_id_files = Table no_id_frame \<and> frame_ok no_id_frame \<and>
   bim_file no_id_files = Absent \<and>
   fst (convert_genotypes pandas_nan_kept ''HT.bim'' no_id_files) = False \<and>
   output_file (snd (convert_genotypes pandas_nan_kept ''HT.bim'' no_id_files)) =
     Some (''IID'' @ [CHR 0x09] @ ''rs1_A'' @ [CHR 0x0A] @ ''nan'' @ [CHR 0x09] @ ''2'') \<and>
   last (printed (snd (convert_genotypes pandas_nan_kept ''HT.bim'' no_id_files))) =
     ErrorDuringConversion (TypeError ''sequence item: expected str instance'')"
  by code_simp

subsection \<open>The value mapping\<close>

lemma row_line_spec:
  assumes "frame_ok df" and "row \<in> set (rows df)"
  shows "row_line P df row =
           sample_id_text P df row @ TAB @
           py_join TAB (map (\<lambda>col. spec_genotype_text (cell_of df row col)) (genotype_cols df))"
proof -
  have eq: "map (genotype_text df row) (genotype_cols df) =
        map (\<lambda>col. spec_genotype_text (cell_of df row col)) (genotype_cols df)"
    using genotype_text_spec(1) [OF assms] by (intro map_cong) simp_all
  show ?thesis unfolding row_line_def eq by (rule refl)
qed

lemma genotype_mapping_aux:
  assumes "raw_file w = Table df" and "bim_file w \<noteq> Malformed" and "frame_ok df"
    and "lib_ok P"
  shows "\<exists>out. output_file (snd (convert_genotypes P bim_name w)) = Some out \<and>
     length (tl (text_lines out)) = length (rows df) \<and>
     (\<forall>i<length (rows df). \<forall>j<length (genotype_cols df).
        Suc j < length (line_fields (tl (text_lines out) ! i)) \<and>
        line_fields (tl (text_lines out) ! i) ! Suc j =
          spec_genotype_text (cell_of df (rows df ! i) (genotype_cols df ! j)))"
proof -
  let ?hdr = "py_join TAB (''IID'' # genotype_cols df)"
  let ?out = "py_join NL (?hdr # map (row_line P df) (rows df))"
  note aux = output_lines_aux [OF assms(3,4)]
  have w': "output_file (snd (convert_genotypes P bim_name w)) = Some ?out"
    by (rule convert_genotypes_output [OF assms(1-3)])
  have cellwise: "Suc j < length (line_fields (tl (text_lines ?out) ! i)) \<and>
        line_fields (tl (text_lines ?out) ! i) ! Suc j =
          spec_genotype_text (cell_of df (rows df ! i) (genotype_cols df ! j))"
    if i: "i < length (rows df)" and j: "j < length (genotype_cols df)" for i j
  proof -
    from i have row: "rows df ! i \<in> set (rows df)" by simp
    from j have col: "genotype_cols df ! j \<in> set (genotype_cols df)" and ne: "genotype_cols df \<noteq> []"
      by auto
    have "tl (text_lines ?out) ! i = row_line P df (rows df ! i)"
      using i by (simp add: aux(1))
    with aux(3) row ne have
      "line_fields (tl (text_lines ?out) ! i) =
         sample_id_text P df (rows df ! i) # map (genotype_text df (rows df ! i)) (genotype_cols df)"
      by simp
    with j genotype_text_spec [OF assms(3) row col] show ?thesis by simp
  qed
  have "length (tl (text_lines ?out)) = length (rows df)" by (simp add: aux(1))
  with w' cellwise show ?thesis by blast
qed

text \<open>
  Claim C6. The table has valid genotype cells only (missing, 0, 1 or 2: the
  precondition). Then the text the converter writes is the header line followed by one
  line per sample: the identifier, a tab, and the tab-joined images of the cells of that
  row under the variant columns, where the image of a missing value is \<open>NA\<close> and the
  image of each of the three counts is its decimal string \<open>0\<close>, \<open>1\<close> or \<open>2\<close>. Read
  back, the field of the \<open>i\<close>-th data line under the \<open>j\<close>-th variant column is the image
  of the cell of the \<open>i\<close>-th row under that column. The mapping is exclusive: two valid
  cells with the same text are the same cell.
\<close>

theorem genotype_mapping_total_exclusive:
  assumes "raw_file w = Table df" and "bim_file w \<noteq> Malformed" and "frame_ok df"
  shows "output_file (snd (convert_genotypes P bim_name w)) =
     Some (py_join NL
       (py_join TAB (''IID'' # genotype_cols df) #
        map (\<lambda>row. sample_id_text P df row @ TAB @
                   py_join TAB (map (\<lambda>col. spec_genotype_text (cell_of df row col))
                                  (genotype_cols df)))
          (rows df))) \<and>
   (\<forall>row\<in>set (rows df). \<forall>col\<in>set (genotype_cols df). valid_genotype (cell_of df row col)) \<and>
   (lib_ok P \<longrightarrow>
     (\<exists>out. output_file (snd (convert_genotypes P bim_name w)) = Some out \<and>
        length (tl (text_lines out)) = length (rows df) \<and>
        (\<forall>i<length (rows df). \<forall>j<length (genotype_cols df).
           Suc j < length (line_fields (tl (text_lines out) ! i)) \<and>
           line_fields (tl (text_lines out) ! i) ! Suc j =
             spec_genotype_text (cell_of df (rows df ! i) (genotype_cols df ! j))))) \<and>
   spec_genotype_text Missing = ''NA'' \<and>
   spec_genotype_text (Count 0) = ''0'' \<and>
   spec_genotype_text (Count 1) = ''1'' \<and>
   spec_genotype_text (Count 2) = ''2'' \<and>
   (\<forall>v v'. valid_genotype v \<and> valid_genotype v' \<and>
      spec_genotype_text v = spec_genotype_text v' \<longrightarrow> v = v')"
proof -
  have inj: "\<forall>v v'. valid_genotype v \<and> valid_genotype v' \<and>
      spec_genotype_text v = spec_genotype_text v' \<longrightarrow> v = v'"
    by (auto simp: valid_genotype_def)
  have lines: "map (row_line P df) (rows df) =
      map (\<lambda>row. sample_id_text P df row @ TAB @
                   py_join TAB (map (\<lambda>col. spec_genotype_text (cell_of df row col))
                                  (genotype_cols df)))
          (rows df)"
    using row_line_spec [OF assms(3)] by (intro map_cong) simp_all
  have out: "output_file (snd (convert_genotypes P bim_name w)) =
     Some (py_join NL
       (py_join TAB (''IID'' # genotype_cols df) #
        map (\<lambda>row. sample_id_text P df row @ TAB @
                   py_join TAB (map (\<lambda>col. spec_genotype_text (cell_of df row col))
                                  (genotype_cols df)))
          (rows df)))"
    using convert_genotypes_output [OF assms, of P bim_name] unfolding lines .
  have valid: "\<forall>row\<in>set (rows df). \<forall>col\<in>set (genotype_cols df). valid_genotype (cell_of df row col)"
    using genotype_text_spec(2) [OF assms(3)] by blast
  from out valid inj genotype_mapping_aux [OF assms, of P bim_name] show ?thesis by simp
qed

theorem genotype_mapping_witness:
  "raw_file scenario_files = Table scenario_frame \<and> bim_file scenario_files \<noteq> Malformed \<and>
   frame_ok scenario_frame \<and> lib_ok pandas_nan_text \<and>
   rows scenario_frame ! 0 = [Count 0, Text ''S1'', Count 0, Count 0, Count 1, Count (- 9), Count 0, Missing] \<and>
   genotype_cols scenario_frame = [''rs1_A'', ''rs2_G''] \<and>
   (\<exists>out. output_file (snd (convert_genotypes pandas_nan_text ''HT.bim'' scenario_files)) = Some out \<and>
      line_fields (tl (text_lines out) ! 0) ! 1 = ''0'' \<and>
      line_fields (tl (text_lines out) ! 0) ! 2 = ''NA'')"
proof -
  have h1: "raw_file scenario_files = Table scenario_frame"
    and h2: "bim_file scenario_files \<noteq> Malformed"
    by (simp_all add: scenario_files_def)
  have g: "genotype_cols scenario_frame = [''rs1_A'', ''rs2_G'']"
    by (simp add: genotype_cols_def scenario_frame_def sample_cols_def)
  have r: "rows scenario_frame ! 0 = [Count 0, Text ''S1'', Count 0, Count 0, Count 1, Count (- 9), Count 0, Missing]"
    by (simp add: scenario_frame_def)
  have c: "spec_genotype_text (cell_of scenario_frame (rows scenario_frame ! 0) ''rs1_A'') = ''0''"
      "spec_genotype_text (cell_of scenario_frame (rows scenario_frame ! 0) ''rs2_G'') = ''NA''"
    unfolding r by (simp_all add: cell_of_def cell_at_def scenario_frame_def)
  from genotype_mapping_total_exclusive [OF h1 h2 scenario_frame_ok, of pandas_nan_text "''HT.bim''"]
    pandas_nan_text_ok
  obtain out where o: "output_file (snd (convert_genotypes pandas_nan_text ''HT.bim'' scenario_files)) = Some out"
    and cells: "\<forall>i<length (rows scenario_frame). \<forall>j<length (genotype_cols scenario_frame).
        line_fields (tl (text_lines out) ! i) ! Suc j =
          spec_genotype_text (cell_of scenario_frame (rows scenario_frame ! i) (genotype_cols scenario_frame ! j))"
    by blast
  have l: "0 < length (rows scenario_frame)" by (simp add: scenario_frame_def)
  from cells l have "line_fields (tl (text_lines out) ! 0) ! Suc 0 =
     spec_genotype_text (cell_of scenario_frame (rows scenario_frame ! 0) (genotype_cols scenario_frame ! 0))"
    by (simp add: g)
  moreover from cells l have "line_fields (tl (text_lines out) ! 0) ! Suc 1 =
     spec_genotype_text (cell_of scenario_frame (rows scenario_frame ! 0) (genotype_cols scenario_frame ! 1))"
    by (simp add: g)
  ultimately have "line_fields (tl (text_lines out) ! 0) ! 1 = ''0''"
    "line_fields (tl (text_lines out) ! 0) ! 2 = ''NA''"
    using c by (simp_all add: g numeral_2_eq_2)
  with o show ?thesis using h1 h2 scenario_frame_ok pandas_nan_text_ok r g by blast
qed

section \<open>Properties of the Score-Script Synthesizer\<close>

lemma basename_path_join:
  assumes "CHR ''/'' \<notin> set n"
  shows "basename (path_join a n) = n"
proof -
  have np: "\<not> prefix ''/'' n" using assms by (cases n) auto
  have "takeWhile (\<lambda>c. c \<noteq> CHR ''/'') (rev n) = rev n"
    using assms by (subst takeWhile_eq_all_conv) auto
  then have tw0: "rev (takeWhile (\<lambda>c. c \<noteq> CHR ''/'') (rev n)) = n"
    by (simp only: rev_rev_ident)
  have tw: "takeWhile (\<lambda>c. c \<noteq> CHR ''/'') (rev n @ CHR ''/'' # r) = rev n" for r
    using assms by (simp add: takeWhile_append)
  show ?thesis
  proof (cases "a = [] \<or> suffix ''/'' a")
    case True
    then show ?thesis
    proof
      assume "a = []"
      then show ?thesis using np by (simp add: path_join_def basename_def tw0)
    next
      assume "suffix ''/'' a"
      then obtain b where "a = b @ ''/''" by (auto simp: suffix_def)
      then show ?thesis using np tw by (simp add: path_join_def basename_def)
    qed
  next
    case False
    then show ?thesis using np tw by (simp add: path_join_def basename_def)
  qed
qed

lemma basename_script_path: "basename (script_path S) = ''ETT_score_2.sh''"
  by (simp add: script_path_def os_path_join_def basename_path_join)

lemma not_par_script: "\<not> fnmatch_ext ''.par'' ''ETT_score_2.sh''"
  by (simp add: fnmatch_ext_def suffix_def)

lemma keys_write_file:
  "map fst (write_file p c fs) = (if p \<in> set (map fst fs) then map fst fs else map fst fs @ [p])"
  by (simp add: write_file_def update_keys)

lemma glob_write_file:
  assumes "\<not> fnmatch_ext ext (basename p)" and "\<not> has_magic (glob_dirname d)"
  shows "glob_ext S (write_file p c fs) d ext = glob_ext S fs d ext"
  using assms by (simp add: glob_ext_def listdir_def keys_write_file)

lemma write_file_twice: "write_file p c (write_file p c fs) = write_file p c fs"
  by (simp add: write_file_def)

lemma map_of_write_file: "map_of (write_file p c fs) p = Some (File c)"
  by (simp add: write_file_def update_conv')


lemma par_loop_blocks:
  "par_loop p acc fs =
     acc @ concat (map (\<lambda>f. script_block (py_replace ''.par'' [] (basename f))
                              (score_command p (py_replace ''.par'' [] (basename f)) (basename f))) fs)"
  by (induction fs arbitrary: acc) (simp_all add: Let_def)

lemma create_script_empty:
  assumes "glob_ext S (files w) d ''.par'' = []"
  shows "create_ett_score_script S d sid w =
           (Inl (FileNotFoundError (''No .par files found in '' @ d)), w)"
  using assms by (simp add: create_ett_score_script_def)

lemma create_script_ok:
  assumes "glob_ext S (files w) d ''.par'' \<noteq> []" and "config w \<noteq> BadJson" and "config w \<noteq> NotDict"
  shows "create_ett_score_script S d sid w =
           (Inr (script_path S),
            emit (CreatedScript (script_path S))
              (w\<lparr>files := write_file (script_path S)
                   (par_loop (cfg_get (cfg_of (config w)) ''plink2'' ''plink2'') (script_header d)
                      (glob_ext S (files w) d ''.par'') @ script_footer) (files w)\<rparr>))"
  using assms by (cases "config w") (simp_all add: create_ett_score_script_def Let_def)

lemma create_script_bad:
  assumes "glob_ext S (files w) d ''.par'' \<noteq> []" and "config w = BadJson \<or> config w = NotDict"
  shows "snd (create_ett_score_script S d sid w) = w \<and>
         (\<exists>e. fst (create_ett_score_script S d sid w) = Inl e)"
  using assms by (auto simp: create_ett_score_script_def Let_def)

lemma create_script_determined:
  assumes "glob_ext S (files w2) d ''.par'' = glob_ext S (files w) d ''.par''" and "config w2 = config w"
  shows "fst (create_ett_score_script S d sid2 w2) = fst (create_ett_score_script S d sid w) \<and>
         (\<forall>p. fst (create_ett_score_script S d sid w) = Inr p \<longrightarrow>
              p = script_path S \<and>
              map_of (files (snd (create_ett_score_script S d sid2 w2))) p =
              map_of (files (snd (create_ett_score_script S d sid w))) p)"
proof (cases "glob_ext S (files w) d ''.par'' = []")
  case True
  with assms show ?thesis by (simp add: create_script_empty)
next
  case False
  show ?thesis
  proof (cases "config w = BadJson \<or> config w = NotDict")
    case True
    with False assms show ?thesis by (auto simp: create_ett_score_script_def Let_def)
  next
    case False
    with \<open>glob_ext S (files w) d ''.par'' \<noteq> []\<close> assms show ?thesis
      by (simp add: create_script_ok emit_def map_of_write_file)
  qed
qed

lemma create_script_again:
  assumes "\<not> has_magic (glob_dirname d)"
  shows "let r1 = create_ett_score_script S d sid w;
             r2 = create_ett_score_script S d sid (snd r1)
         in fst r2 = fst r1 \<and> files (snd r2) = files (snd r1) \<and>
            (\<forall>p. fst r1 = Inr p \<longrightarrow>
               p = script_path S \<and>
               map_of (files (snd r1)) p =
                 Some (File (par_loop (cfg_get (cfg_of (config w)) ''plink2'' ''plink2'') (script_header d)
                               (glob_ext S (files w) d ''.par'') @ script_footer)))"
proof (cases "glob_ext S (files w) d ''.par'' = []")
  case True
  then show ?thesis by (simp add: create_script_empty)
next
  case False
  show ?thesis
  proof (cases "config w = BadJson \<or> config w = NotDict")
    case True
    from create_script_bad [OF False True, of sid] show ?thesis by (auto simp: Let_def)
  next
    case False
    then have c: "config w \<noteq> BadJson" "config w \<noteq> NotDict" by simp_all
    let ?txt = "par_loop (cfg_get (cfg_of (config w)) ''plink2'' ''plink2'') (script_header d)
                        (glob_ext S (files w) d ''.par'') @ script_footer"
    let ?w1 = "emit (CreatedScript (script_path S))
            (w\<lparr>files := write_file (script_path S) ?txt (files w)\<rparr>)"
    have r1: "create_ett_score_script S d sid w = (Inr (script_path S), ?w1)"
      by (rule create_script_ok [OF \<open>glob_ext S (files w) d ''.par'' \<noteq> []\<close> c])
    have g: "glob_ext S (files ?w1) d ''.par'' = glob_ext S (files w) d ''.par''"
      using assms by (simp add: emit_def glob_write_file basename_script_path not_par_script)
    have c1: "config ?w1 = config w" by (simp add: emit_def)
    have r2: "create_ett_score_script S d sid ?w1 =
                (Inr (script_path S),
                 emit (CreatedScript (script_path S))
                   (?w1\<lparr>files := write_file (script_path S) ?txt (files ?w1)\<rparr>))"
      using create_script_ok [of S ?w1 d sid] \<open>glob_ext S (files w) d ''.par'' \<noteq> []\<close> c
      unfolding g c1 by simp
    show ?thesis
      unfolding Let_def r1 snd_conv fst_conv r2
      by (simp add: emit_def write_file_twice map_of_write_file)
  qed
qed

text \<open>
  Claim C9, as amended. The script text is computed from the directory path, the list of
  model files that \<open>glob\<close> returns, in the order in which it returns them, and the
  configured scoring binary. Two runs in any two worlds with the same such list and the
  same configuration return the same result, and on success it is the fixed location
  \<open>PRS_Files/ETT_score_2.sh\<close>, which then holds byte-identical text in both, whatever
  was there before. For a directory path without glob metacharacters, running the
  synthesizer again on the world the first run left gives the same result and leaves the
  file system as it is.
\<close>

theorem synthesis_idempotent:
  "(glob_ext S (files w2) d ''.par'' = glob_ext S (files w) d ''.par'' \<and> config w2 = config w \<longrightarrow>
      fst (create_ett_score_script S d sid2 w2) = fst (create_ett_score_script S d sid w) \<and>
      (\<forall>p. fst (create_ett_score_script S d sid w) = Inr p \<longrightarrow>
           p = script_path S \<and>
           map_of (files (snd (create_ett_score_script S d sid2 w2))) p =
           map_of (files (snd (create_ett_score_script S d sid w))) p)) \<and>
   (\<not> has_magic (glob_dirname d) \<longrightarrow>
      (let r1 = create_ett_score_script S d sid w;
           r2 = create_ett_score_script S d sid (snd r1)
       in fst r2 = fst r1 \<and> files (snd r2) = files (snd r1) \<and>
          (\<forall>p. fst r1 = Inr p \<longrightarrow>
             p = script_path S \<and>
             map_of (files (snd r1)) p =
               Some (File (par_loop (cfg_get (cfg_of (config w)) ''plink2'' ''plink2'') (script_header d)
                             (glob_ext S (files w) d ''.par'') @ script_footer)))))"
  using create_script_determined [of S w2 d w sid2 sid] create_script_again [of d S sid w]
  by blast

theorem synthesis_idempotent_witness:
  "glob_ext quiet_system
      (files (two_model_world\<lparr>files := (''/tmp/x'', File ''y'') # files two_model_world\<rparr>))
      ''/scores'' ''.par'' = glob_ext quiet_system (files two_model_world) ''/scores'' ''.par'' \<and>
   \<not> has_magic (glob_dirname ''/scores'') \<and>
   fst (create_ett_score_script quiet_system ''/scores'' ''HB0402'' two_model_world) =
     Inr ''/home/u/Desktop/PRS_New/PRS_Files/ETT_score_2.sh'' \<and>
   fst (create_ett_score_script quiet_system ''/scores'' ''HB0403''
          (two_model_world\<lparr>files := (''/tmp/x'', File ''y'') # files two_model_world\<rparr>)) =
     Inr ''/home/u/Desktop/PRS_New/PRS_Files/ETT_score_2.sh'' \<and>
   map_of (files (snd (create_ett_score_script quiet_system ''/scores'' ''HB0403''
          (two_model_world\<lparr>files := (''/tmp/x'', File ''y'') # files two_model_world\<rparr>))))
       ''/home/u/Desktop/PRS_New/PRS_Files/ETT_score_2.sh'' =
   map_of (files (snd (create_ett_score_script quiet_system ''/scores'' ''HB0402'' two_model_world)))
       ''/home/u/Desktop/PRS_New/PRS_Files/ETT_score_2.sh'' \<and>
   files (snd (create_ett_score_script quiet_system ''/scores'' ''HB0402''
            (snd (create_ett_score_script quiet_system ''/scores'' ''HB0402'' two_model_world)))) =
   files (snd (create_ett_score_script quiet_system ''/scores'' ''HB0402'' two_model_world))"
proof -
  let ?w = two_model_world
  let ?w2 = "two_model_world\<lparr>files := (''/tmp/x'', File ''y'') # files two_model_world\<rparr>"
  let ?p = "''/home/u/Desktop/PRS_New/PRS_Files/ETT_score_2.sh''"
  have g: "glob_ext quiet_system (files ?w2) ''/scores'' ''.par'' =
           glob_ext quiet_system (files ?w) ''/scores'' ''.par''"
    by code_simp
  have c: "config ?w2 = config ?w" by simp
  have m: "\<not> has_magic (glob_dirname ''/scores'')" by code_simp
  have r: "fst (create_ett_score_script quiet_system ''/scores'' ''HB0402'' ?w) = Inr ?p"
    by code_simp
  note idem = synthesis_idempotent [of quiet_system ?w2 "''/scores''" ?w "''HB0403''" "''HB0402''"]
  from idem g c
  have a: "fst (create_ett_score_script quiet_system ''/scores'' ''HB0403'' ?w2) =
        fst (create_ett_score_script quiet_system ''/scores'' ''HB0402'' ?w)"
    by blast
  from idem g c r
  have b: "map_of (files (snd (create_ett_score_script quiet_system ''/scores'' ''HB0403'' ?w2))) ?p =
        map_of (files (snd (create_ett_score_script quiet_system ''/scores'' ''HB0402'' ?w))) ?p"
    by blast
  from idem m
  have e: "files (snd (create_ett_score_script quiet_system ''/scores'' ''HB0402''
            (snd (create_ett_score_script quiet_system ''/scores'' ''HB0402'' ?w)))) =
        files (snd (create_ett_score_script quiet_system ''/scores'' ''HB0402'' ?w))"
    unfolding Let_def by blast
  from g m r a b e show ?thesis by simp
qed

text \<open>
  The directory contents alone do not determine the script. The same files under another
  \<open>plink2\<close> entry of the configuration file, which lies outside the directory, give another
  text; and so do the same files when the directory lists them in another order.
\<close>

theorem synthesis_not_determined_by_directory:
  "files (two_model_world\<lparr>config := Dict [(''plink2'', ''plink2'')]\<rparr>) = files two_model_world \<and>
   map_of (files (snd (create_ett_score_script quiet_system ''/scores'' ''HB0402''
                         (two_model_world\<lparr>config := Dict [(''plink2'', ''plink2'')]\<rparr>))))
       (script_path quiet_system) \<noteq>
   map_of (files (snd (create_ett_score_script quiet_system ''/scores'' ''HB0402'' two_model_world)))
       (script_path quiet_system) \<and>
   set (files two_model_world_reordered) = set (files two_model_world) \<and>
   config two_model_world_reordered = config two_model_world \<and>
   map_of (files (snd (create_ett_score_script quiet_system ''/scores'' ''HB0402''
                         two_model_world_reordered)))
       (script_path quiet_system) \<noteq>
   map_of (files (snd (create_ett_score_script quiet_system ''/scores'' ''HB0402'' two_model_world)))
       (script_path quiet_system)"
  by code_simp

subsection \<open>A directory without model files\<close>

text \<open>
  For a directory path without glob metacharacters: when no entry of the directory matches
  \<open>*.par\<close>, the synthesizer raises \<open>FileNotFoundError\<close> and the world, so also the script
  location, is exactly as before.
\<close>

lemma no_model_files_plain_dir:
  assumes "\<not> has_magic (glob_dirname d)"
    and "filter (fnmatch_ext ''.par'') (listdir (files w) (glob_dirname d)) = []"
  shows "create_ett_score_script S d sid w =
           (Inl (FileNotFoundError (''No .par files found in '' @ d)), w)"
  using assms by (intro create_script_empty) (simp add: glob_ext_def)

text \<open>
  Claim C7, at a directory whose name has a bracket in it. The directory
  \<open>/scores/set[1]\<close> has no entry at all, so no model file. The synthesizer does not raise:
  the directory path goes into the glob pattern as it is, the pattern matches the model of
  the directory \<open>/scores/set1\<close>, and the script is written at the fixed location with one
  scoring block for that file.
\<close>

theorem bracket_dir_script_produced:
  "path_exists (files bracket_world) ''/scores/set[1]'' \<and>
   listdir (files bracket_world) ''/scores/set[1]'' = [] \<and>
   glob_ext bracket_system (files bracket_world) ''/scores/set[1]'' ''.par'' = [''/scores/set1/a.par''] \<and>
   map_of (files bracket_world) (script_path bracket_system) = None \<and>
   fst (create_ett_score_script bracket_system ''/scores/set[1]'' ''HB0402'' bracket_world) =
     Inr (script_path bracket_system) \<and>
   map_of (files (snd (create_ett_score_script bracket_system ''/scores/set[1]'' ''HB0402'' bracket_world)))
       (script_path bracket_system) =
     Some (File (script_header ''/scores/set[1]'' @
                 script_block ''a'' (score_command ''plink2'' ''a'' ''a.par'') @
                 script_footer))"
  by code_simp

subsection \<open>Stripping the extension\<close>

lemma prefix_take_conv: "prefix ys xs = (take (length ys) xs = ys)"
proof
  assume "prefix ys xs"
  then obtain zs where "xs = ys @ zs" by (auto simp: prefix_def)
  then show "take (length ys) xs = ys" by simp
next
  assume "take (length ys) xs = ys"
  then show "prefix ys xs" using take_is_prefix [of "length ys" xs] by simp
qed

lemma prefix_append_butlast:
  assumes "stem \<noteq> []"
  shows "prefix ext (stem @ ext) = prefix ext (stem @ butlast ext)"
proof (cases "ext = []")
  case True then show ?thesis by simp
next
  case False
  with assms have "length ext - length stem < length ext" by (cases stem) auto
  then have "take (length ext - length stem) (butlast ext) = take (length ext - length stem) ext"
    by (rule take_butlast)
  then show ?thesis by (simp add: prefix_take_conv)
qed

lemma py_replace_miss:
  "old \<noteq> [] \<Longrightarrow> \<not> prefix old (c # cs) \<Longrightarrow>
   py_replace old new (c # cs) = c # py_replace old new cs"
  by (subst py_replace.simps) simp

lemma py_replace_hit:
  "old \<noteq> [] \<Longrightarrow> prefix old s \<Longrightarrow>
   py_replace old new s = new @ py_replace old new (drop (length old) s)"
  by (subst py_replace.simps) auto

lemma py_replace_Nil: "old \<noteq> [] \<Longrightarrow> py_replace old new [] = []"
  by (subst py_replace.simps) simp

lemma py_replace_strips_suffix:
  assumes "ext \<noteq> []"
  shows "\<not> py_contains ext (stem @ butlast ext) \<Longrightarrow> py_replace ext [] (stem @ ext) = stem"
proof (induction stem)
  case Nil
  show ?case using assms by (simp add: py_replace_hit py_replace_Nil)
next
  case (Cons c cs)
  from Cons.prems have np: "\<not> prefix ext ((c # cs) @ butlast ext)"
    and rest: "\<not> py_contains ext (cs @ butlast ext)" by simp_all
  from np have "\<not> prefix ext (c # (cs @ ext))"
    using prefix_append_butlast [of "c # cs" ext] by simp
  then have "py_replace ext [] (c # (cs @ ext)) = c # py_replace ext [] (cs @ ext)"
    using assms by (intro py_replace_miss)
  with Cons.IH [OF rest] show ?case by simp
qed

lemma py_replace_strips_extension:
  "\<not> py_contains ''.par'' (stem @ ''.pa'') \<Longrightarrow> py_replace ''.par'' [] (stem @ ''.par'') = stem"
  using py_replace_strips_suffix [of "''.par''" stem] by simp

subsection \<open>One block per model file\<close>

lemma basename_no_slash: "CHR ''/'' \<notin> set (basename p)"
proof -
  have "set (takeWhile (\<lambda>c. c \<noteq> CHR ''/'') (rev p)) \<subseteq> {c. c \<noteq> CHR ''/''}"
    by (auto dest: set_takeWhileD)
  then show ?thesis by (auto simp: basename_def)
qed

lemma basename_glob:
  assumes "\<not> has_magic (glob_dirname d)"
  shows "map basename (glob_ext S fs d ext) =
           filter (fnmatch_ext ext) (listdir fs (glob_dirname d))"
proof -
  let ?dir = "glob_dirname d"
  have "basename (path_join ?dir n) = n" if "n \<in> set (listdir fs ?dir)" for n
    using that basename_no_slash by (auto simp: listdir_def intro: basename_path_join)
  then have "map (basename \<circ> path_join ?dir) (filter (fnmatch_ext ext) (listdir fs ?dir)) =
             filter (fnmatch_ext ext) (listdir fs ?dir)"
    by (intro map_idI) simp
  then show ?thesis using assms by (simp add: glob_ext_def Let_def)
qed

text \<open>
  The script the synthesizer writes is the header, then one block per discovered model
  file, in the order of discovery, then the footer; the block of a file holds one scoring
  command, which names the model file and an output name. For a directory path without
  glob metacharacters the discovered files are the entries of the directory that match
  \<open>*.par\<close>, in listing order.
\<close>

lemma synthesized_script_blocks:
  assumes "fst (create_ett_score_script S d sid w) = Inr p"
  shows "map_of (files (snd (create_ett_score_script S d sid w))) p =
           Some (File
             (script_header d @
              concat (map (\<lambda>name. script_block (py_replace ''.par'' [] name)
                                     (score_command (cfg_get (cfg_of (config w)) ''plink2'' ''plink2'')
                                        (py_replace ''.par'' [] name) name))
                        (map basename (glob_ext S (files w) d ''.par''))) @
              script_footer))"
proof -
  from assms have g: "glob_ext S (files w) d ''.par'' \<noteq> []"
    by (auto simp: create_script_empty)
  from assms g have c: "config w \<noteq> BadJson" "config w \<noteq> NotDict"
    using create_script_bad [OF g, of sid] by auto
  have "map (\<lambda>f. script_block (py_replace ''.par'' [] (basename f))
                 (score_command q (py_replace ''.par'' [] (basename f)) (basename f)))
          (glob_ext S (files w) d ''.par'') =
        map (\<lambda>name. script_block (py_replace ''.par'' [] name)
                 (score_command q (py_replace ''.par'' [] name) name))
          (map basename (glob_ext S (files w) d ''.par''))" for q
    by (simp add: comp_def)
  then show ?thesis
    using assms by (simp add: create_script_ok [OF g c] emit_def map_of_write_file
        par_loop_blocks comp_def)
qed

text \<open>
  Claim C3, at a directory that holds the one model file \<open>t2d.part1.par\<close>. The synthesized
  script has exactly one scoring block, but the output name in it is \<open>t2dt1\<close>: the code
  deletes every occurrence of \<open>.par\<close> in the file name, so the name is not the file name
  without its extension, \<open>t2d.part1\<close>. (Where \<open>.par\<close> occurs at the end of the name only,
  the two agree: \<open>py_replace_strips_extension\<close>.)
\<close>

theorem output_name_loses_inner_par:
  "fst (create_ett_score_script quiet_system ''/scores'' ''HB0402'' part_world) =
     Inr (script_path quiet_system) \<and>
   map_of (files (snd (create_ett_score_script quiet_system ''/scores'' ''HB0402'' part_world)))
       (script_path quiet_system) =
     Some (File (script_header ''/scores'' @
                 script_block ''t2dt1'' (score_command ''plink2'' ''t2dt1'' ''t2d.part1.par'') @
                 script_footer)) \<and>
   ''t2dt1'' \<noteq> ''t2d.part1''"
  by code_simp

section \<open>Properties of the Pipeline Orchestrator\<close>

subsection \<open>Steps, traces and logs\<close>

lemma run_steps_append:
  "run_steps (xs @ ys) w =
     (case run_steps xs w of
        (Some e, w') \<Rightarrow> (Some e, w')
      | (None, w') \<Rightarrow> run_steps ys w')"
  by (induction xs arbitrary: w) (auto split: prod.splits option.splits)

lemma path_exists_makedirs:
  "makedirs S q fs = Inr fs' \<Longrightarrow> path_exists fs p \<Longrightarrow> path_exists fs' p"
  by (auto simp: path_exists_def makedirs_def split: option.splits node.splits)

lemma path_exists_makedirs_all:
  "makedirs_all S qs fs = (None, fs') \<Longrightarrow> path_exists fs p \<Longrightarrow> path_exists fs' p"
proof (induction qs arbitrary: fs)
  case Nil then show ?case by simp
next
  case (Cons q qs)
  then show ?case by (auto split: sum.splits dest: path_exists_makedirs)
qed

lemma commands_run_append: "commands_run (xs @ ys) = commands_run xs @ commands_run ys"
  by (induction xs rule: commands_run.induct) simp_all

lemma commands_run_handlers: "commands_run (log (handlers e w)) = commands_run (log w)"
  by (cases e) (simp_all add: handlers_def emit_def commands_run_append)

lemma trace_handlers: "trace (handlers e w) = trace w"
  by (cases e) (simp_all add: handlers_def emit_def)

lemma step0_ok:
  "path_exists (files w) (vcf L) \<Longrightarrow>
   step0_validate S L w = (None, emit (UsingBinaries (plink_bin L) (plink2_bin L) (docker_bin L)) w)"
  by (simp add: step0_validate_def)

lemma run_raises:
  "fst (subprocess S cmd cwd (files w)) = Some e \<Longrightarrow>
   run S cmd cwd w = (Some e, (emit (RunCmd cmd) w)\<lparr>files := snd (subprocess S cmd cwd (files w))\<rparr>)"
  by (simp add: run_def emit_def Let_def)


lemma import_fails_steps:
  assumes "path_exists (files w) (vcf L)"
    and "fst (subprocess S (import_cmd S L) None (files w)) = Some e"
  shows "\<exists>w'. run_steps ((Validate, step0_validate S L) # (Import, step1_import S L) # rest) w =
                 (Some (Import, e), w') \<and>
              trace w' = trace w @ [Validate, Import] \<and>
              commands_run (log w') = commands_run (log w) @ [import_cmd S L]"
proof -
  let ?w1 = "enter Import (emit (UsingBinaries (plink_bin L) (plink2_bin L) (docker_bin L)) (enter Validate w))"
  have f: "files ?w1 = files w" by (simp add: enter_def emit_def)
  have s0: "step0_validate S L (enter Validate w) =
              (None, emit (UsingBinaries (plink_bin L) (plink2_bin L) (docker_bin L)) (enter Validate w))"
    using assms(1) by (intro step0_ok) (simp add: enter_def)
  have s1: "step1_import S L ?w1 =
              (Some e, (emit (RunCmd (import_cmd S L)) ?w1)\<lparr>files := snd (subprocess S (import_cmd S L) None (files ?w1))\<rparr>)"
    unfolding step1_import_def using assms(2) f by (intro run_raises) simp
  show ?thesis
    by (simp add: s0 s1) (simp add: enter_def emit_def commands_run_append)
qed

lemma files_pipeline_prepare:
  assumes "fst (pipeline_prepare S sid w) = None" and "path_exists (files w) p"
  shows "path_exists (files (snd (pipeline_prepare S sid w))) p"
proof -
  let ?r = "makedirs_all S [vcf_dir S sid, prs_dir S sid, ancestry_dir S] (files w)"
  have e: "files (emit (PipelineStarting sid) w) = files w" by (simp add: emit_def)
  have p: "pipeline_prepare S sid w = (fst ?r, (emit (PipelineStarting sid) w)\<lparr>files := snd ?r\<rparr>)"
    unfolding pipeline_prepare_def Let_def e ..
  from assms(1) have "fst ?r = None" unfolding p by simp
  then obtain fs' where "?r = (None, fs')" by (cases ?r) auto
  from path_exists_makedirs_all [OF this assms(2)] this show ?thesis
    unfolding p by simp
qed

lemma files_gui_prepare:
  assumes "fst (gui_prepare S sid d w) = None" and "path_exists (files w) p"
  shows "path_exists (files (snd (gui_prepare S sid d w))) p"
proof -
  let ?r = "makedirs_all S
              [vcf_dir S sid, prs_dir S sid, ancestry_dir S, prs_scripts_dir S, prs_files_dir S]
              (files w)"
  let ?w1 = "emit (UsingPrsDir d) (emit (PipelineStarting sid) w)"
  have e: "files ?w1 = files w" by (simp add: emit_def)
  have p: "gui_prepare S sid d w = (fst ?r, ?w1\<lparr>files := snd ?r\<rparr>)"
    unfolding gui_prepare_def Let_def e ..
  from assms(1) have "fst ?r = None" unfolding p by simp
  then obtain fs' where "?r = (None, fs')" by (cases ?r) auto
  from path_exists_makedirs_all [OF this assms(2)] this show ?thesis
    unfolding p by simp
qed

lemma trace_log_pipeline_prepare:
  "trace (snd (pipeline_prepare S sid w)) = trace w \<and>
   commands_run (log (snd (pipeline_prepare S sid w))) = commands_run (log w)"
  by (simp add: pipeline_prepare_def emit_def Let_def commands_run_append)

lemma trace_log_gui_prepare:
  "trace (snd (gui_prepare S sid d w)) = trace w \<and>
   commands_run (log (snd (gui_prepare S sid d w))) = commands_run (log w)"
  by (simp add: gui_prepare_def emit_def Let_def commands_run_append)

lemma pipeline_cli_try:
  assumes "config w \<noteq> NotDict" and "vcf_arg a = Some v" and "id_arg a = Some sid"
    and "v \<noteq> []" and "sid \<noteq> []" and "fst (pipeline_prepare S sid w) = None"
  shows "pipeline_run_pipeline_cli S a w =
           (case run_steps (pipeline_steps S (pipeline_locals (cfg_of (config w)) v sid))
                   (snd (pipeline_prepare S sid w)) of
              (None, w') \<Rightarrow> (Inr Completed, emit (PipelineCompleted (prs_dir S sid)) w')
            | (Some (st, e), w') \<Rightarrow> (Inr (Failed st e), handlers e w'))"
proof -
  from assms(6) obtain w0 where "pipeline_prepare S sid w = (None, w0)"
    by (cases "pipeline_prepare S sid w") auto
  then show ?thesis
    using assms(1-5) by (simp add: pipeline_run_pipeline_cli_def)
qed

lemma gui_cli_try:
  assumes "config w \<noteq> NotDict" and "vcf_arg a = Some v" and "id_arg a = Some sid"
    and "v \<noteq> []" and "sid \<noteq> []"
    and "gui_score_dir a (cfg_of (config w)) = d" and "d \<noteq> []" and "path_exists (files w) d"
    and "fst (gui_prepare S sid d w) = None"
  shows "gui_run_pipeline_cli S a w =
           (case run_steps (gui_steps S (gui_locals (cfg_of (config w)) v sid d))
                   (snd (gui_prepare S sid d w)) of
              (None, w') \<Rightarrow>
                (Inr Completed, list_score_files S sid (emit (PipelineCompleted (prs_dir S sid)) w'))
            | (Some (st, e), w') \<Rightarrow> (Inr (Failed st e), handlers e w'))"
proof -
  from assms(9) obtain w0 where "gui_prepare S sid d w = (None, w0)"
    by (cases "gui_prepare S sid d w") auto
  then show ?thesis
    using assms(1-8) by (simp add: gui_run_pipeline_cli_def Let_def)
qed

text \<open>
  Claim C8, for both scripts. When the run reaches the \<open>try\<close> block (arguments given, input
  file present, the directories of the run created; for prs\_gui.py also a scoring-model
  directory) and the import command raises \<open>e\<close>, the run ends as \<open>Failed Import e\<close>; the
  steps entered are \<open>Validate\<close> and \<open>Import\<close> and no other, and the import command is the
  only command the run started.
\<close>

theorem import_failure_aborts_run:
  "(config w \<noteq> NotDict \<and> vcf_arg a = Some v \<and> id_arg a = Some sid \<and> v \<noteq> [] \<and> sid \<noteq> [] \<and>
    path_exists (files w) v \<and>
    fst (pipeline_prepare S sid w) = None \<and>
    fst (subprocess S (import_cmd S (pipeline_locals (cfg_of (config w)) v sid)) None
           (files (snd (pipeline_prepare S sid w)))) = Some e
    \<longrightarrow> (\<exists>w'. pipeline_run_pipeline_cli S a w = (Inr (Failed Import e), w') \<and>
              trace w' = trace w @ [Validate, Import] \<and>
              commands_run (log w') =
                commands_run (log w) @ [import_cmd S (pipeline_locals (cfg_of (config w)) v sid)])) \<and>
   (config w \<noteq> NotDict \<and> vcf_arg a = Some v \<and> id_arg a = Some sid \<and> v \<noteq> [] \<and> sid \<noteq> [] \<and>
    gui_score_dir a (cfg_of (config w)) = d \<and> d \<noteq> [] \<and> path_exists (files w) d \<and>
    path_exists (files w) v \<and>
    fst (gui_prepare S sid d w) = None \<and>
    fst (subprocess S (import_cmd S (gui_locals (cfg_of (config w)) v sid d)) None
           (files (snd (gui_prepare S sid d w)))) = Some e
    \<longrightarrow> (\<exists>w'. gui_run_pipeline_cli S a w = (Inr (Failed Import e), w') \<and>
              trace w' = trace w @ [Validate, Import] \<and>
              commands_run (log w') =
                commands_run (log w) @ [import_cmd S (gui_locals (cfg_of (config w)) v sid d)]))"
proof (rule conjI; rule impI)
  let ?L = "pipeline_locals (cfg_of (config w)) v sid"
  let ?w0 = "snd (pipeline_prepare S sid w)"
  assume a: "config w \<noteq> NotDict \<and> vcf_arg a = Some v \<and> id_arg a = Some sid \<and> v \<noteq> [] \<and> sid \<noteq> [] \<and>
    path_exists (files w) v \<and>
    fst (pipeline_prepare S sid w) = None \<and>
    fst (subprocess S (import_cmd S ?L) None (files ?w0)) = Some e"
  then have v: "path_exists (files ?w0) (vcf ?L)"
    by (simp add: files_pipeline_prepare pipeline_locals_def)
  from a have f: "fst (subprocess S (import_cmd S ?L) None (files ?w0)) = Some e"
    by simp
  from import_fails_steps [OF v f] obtain w' where
    w': "run_steps (pipeline_steps S ?L) ?w0 = (Some (Import, e), w')"
        "trace w' = trace ?w0 @ [Validate, Import]"
        "commands_run (log w') = commands_run (log ?w0) @ [import_cmd S ?L]"
    unfolding pipeline_steps_def pipeline_required_steps_def by auto
  from a have "pipeline_run_pipeline_cli S a w =
           (case run_steps (pipeline_steps S ?L) ?w0 of
              (None, w') \<Rightarrow> (Inr Completed, emit (PipelineCompleted (prs_dir S sid)) w')
            | (Some (st, e), w') \<Rightarrow> (Inr (Failed st e), handlers e w'))"
    by (intro pipeline_cli_try) simp_all
  then show "\<exists>w'. pipeline_run_pipeline_cli S a w = (Inr (Failed Import e), w') \<and>
              trace w' = trace w @ [Validate, Import] \<and>
              commands_run (log w') = commands_run (log w) @ [import_cmd S ?L]"
    using w' by (simp add: trace_handlers commands_run_handlers trace_log_pipeline_prepare)
next
  let ?L = "gui_locals (cfg_of (config w)) v sid d"
  let ?w0 = "snd (gui_prepare S sid d w)"
  assume a: "config w \<noteq> NotDict \<and> vcf_arg a = Some v \<and> id_arg a = Some sid \<and> v \<noteq> [] \<and> sid \<noteq> [] \<and>
    gui_score_dir a (cfg_of (config w)) = d \<and> d \<noteq> [] \<and> path_exists (files w) d \<and>
    path_exists (files w) v \<and>
    fst (gui_prepare S sid d w) = None \<and>
    fst (subprocess S (import_cmd S ?L) None (files ?w0)) = Some e"
  then have v: "path_exists (files ?w0) (vcf ?L)"
    by (simp add: files_gui_prepare gui_locals_def)
  from a have f: "fst (subprocess S (import_cmd S ?L) None (files ?w0)) = Some e"
    by simp
  from import_fails_steps [OF v f] obtain w' where
    w': "run_steps (gui_steps S ?L) ?w0 = (Some (Import, e), w')"
        "trace w' = trace ?w0 @ [Validate, Import]"
        "commands_run (log w') = commands_run (log ?w0) @ [import_cmd S ?L]"
    unfolding gui_steps_def gui_required_steps_def gui_steps_0_4_def by auto
  from a have "gui_run_pipeline_cli S a w =
           (case run_steps (gui_steps S ?L) ?w0 of
              (None, w') \<Rightarrow>
                (Inr Completed, list_score_files S sid (emit (PipelineCompleted (prs_dir S sid)) w'))
            | (Some (st, e), w') \<Rightarrow> (Inr (Failed st e), handlers e w'))"
    by (intro gui_cli_try) simp_all
  then show "\<exists>w'. gui_run_pipeline_cli S a w = (Inr (Failed Import e), w') \<and>
              trace w' = trace w @ [Validate, Import] \<and>
              commands_run (log w') = commands_run (log w) @ [import_cmd S ?L]"
    using w' by (simp add: trace_handlers commands_run_handlers trace_log_gui_prepare)
qed

theorem import_failure_aborts_run_witness:
  "fst (pipeline_run_pipeline_cli import_fail_system run_args installed_world) =
     Inr (Failed Import (CalledProcessError 1)) \<and>
   trace (snd (pipeline_run_pipeline_cli import_fail_system run_args installed_world)) =
     [Validate, Import] \<and>
   fst (gui_run_pipeline_cli import_fail_system run_args installed_world) =
     Inr (Failed Import (CalledProcessError 1)) \<and>
   trace (snd (gui_run_pipeline_cli import_fail_system run_args installed_world)) =
     [Validate, Import]"
proof -
  let ?w = installed_world and ?a = run_args and ?S = import_fail_system
  let ?v = "''/data/HB0402.vcf''" and ?sid = "''HB0402''" and ?d = "''/scores''"
  let ?e = "CalledProcessError 1"
  have h1: "config ?w \<noteq> NotDict \<and> vcf_arg ?a = Some ?v \<and> id_arg ?a = Some ?sid \<and> ?v \<noteq> [] \<and> ?sid \<noteq> [] \<and>
    path_exists (files ?w) ?v \<and>
    fst (pipeline_prepare ?S ?sid ?w) = None \<and>
    fst (subprocess ?S (import_cmd ?S (pipeline_locals (cfg_of (config ?w)) ?v ?sid)) None
           (files (snd (pipeline_prepare ?S ?sid ?w)))) = Some ?e"
    by code_simp
  have h2: "config ?w \<noteq> NotDict \<and> vcf_arg ?a = Some ?v \<and> id_arg ?a = Some ?sid \<and> ?v \<noteq> [] \<and> ?sid \<noteq> [] \<and>
    gui_score_dir ?a (cfg_of (config ?w)) = ?d \<and> ?d \<noteq> [] \<and> path_exists (files ?w) ?d \<and>
    path_exists (files ?w) ?v \<and>
    fst (gui_prepare ?S ?sid ?d ?w) = None \<and>
    fst (subprocess ?S (import_cmd ?S (gui_locals (cfg_of (config ?w)) ?v ?sid ?d)) None
           (files (snd (gui_prepare ?S ?sid ?d ?w)))) = Some ?e"
    by code_simp
  have t: "trace ?w = []" by (simp add: installed_world_def)
  from import_failure_aborts_run [of ?w ?a ?v ?sid ?S ?e ?d] h1
  obtain w1 where "pipeline_run_pipeline_cli ?S ?a ?w = (Inr (Failed Import ?e), w1)"
    "trace w1 = trace ?w @ [Validate, Import]" by blast
  moreover from import_failure_aborts_run [of ?w ?a ?v ?sid ?S ?e ?d] h2
  obtain w2 where "gui_run_pipeline_cli ?S ?a ?w = (Inr (Failed Import ?e), w2)"
    "trace w2 = trace ?w @ [Validate, Import]" by blast
  ultimately show ?thesis by (simp add: t)
qed

subsection \<open>The ancestry step\<close>

lemma run_log_trace:
  "log (snd (run S cmd cwd w)) = log w @ [RunCmd cmd] \<and> trace (snd (run S cmd cwd w)) = trace w"
  by (simp add: run_def emit_def Let_def)

lemma step8_log_trace:
  "set (log w) \<subseteq> set (log (snd (step8_parse S L w))) \<and> trace (snd (step8_parse S L w)) = trace w"
  by (auto simp: step8_parse_def run_log_trace emit_def)

lemma step9_log_trace:
  "set (log w) \<subseteq> set (log (snd (step9_report S L w))) \<and> trace (snd (step9_report S L w)) = trace w"
  by (auto simp: step9_report_def run_log_trace emit_def)

lemma last_two_run:
  "set (log w) \<subseteq> set (log (snd (run_steps (last_two_steps S L) w))) \<and>
   prefix (trace w @ [ParseAncestry]) (trace (snd (run_steps (last_two_steps S L) w))) \<and>
   (fst (run_steps (last_two_steps S L) w) = None \<longrightarrow>
      trace (snd (run_steps (last_two_steps S L) w)) = trace w @ [ParseAncestry, Report]) \<and>
   (\<forall>st x. fst (run_steps (last_two_steps S L) w) = Some (st, x) \<longrightarrow> st \<noteq> Ancestry)"
proof -
  obtain r8 w8 where s8: "step8_parse S L (enter ParseAncestry w) = (r8, w8)" by fastforce
  obtain r9 w9 where s9: "step9_report S L (enter Report w8) = (r9, w9)" by fastforce
  have l8: "set (log w) \<subseteq> set (log w8)" and t8: "trace w8 = trace w @ [ParseAncestry]"
    using step8_log_trace [of "enter ParseAncestry w" S L] s8 by (simp_all add: enter_def)
  have l9: "set (log w8) \<subseteq> set (log w9)" and t9: "trace w9 = trace w8 @ [Report]"
    using step9_log_trace [of "enter Report w8" S L] s9 by (simp_all add: enter_def)
  show ?thesis
    using s8 s9 l8 l9 t8 t9
    by (cases r8; cases r9) (auto simp: last_two_steps_def)
qed

lemma gui_step7_raises:
  assumes "fst (subprocess S (ancestry_cmd S L ''python'') None (files w)) = Some e"
  shows "fst (gui_step7_ancestry S L (enter Ancestry w)) = None \<and>
         AncestrySkipped e \<in> set (log (snd (gui_step7_ancestry S L (enter Ancestry w)))) \<and>
         trace (snd (gui_step7_ancestry S L (enter Ancestry w))) = trace w @ [Ancestry]"
proof -
  have "fst (subprocess S (ancestry_cmd S L ''python'') None (files (enter Ancestry w))) = Some e"
    using assms by (simp add: enter_def)
  from run_raises [OF this] show ?thesis
    by (simp add: gui_step7_ancestry_def emit_def enter_def)
qed

lemma list_score_files_log_trace:
  "set (log w) \<subseteq> set (log (list_score_files S sid w)) \<and> trace (list_score_files S sid w) = trace w"
  by (auto simp: list_score_files_def Let_def emit_def)

lemma handlers_log: "set (log w) \<subseteq> set (log (handlers e w))"
  by (cases e) (auto simp: handlers_def emit_def)


lemma gui_after_ancestry_failure:
  assumes req: "run_steps (gui_required_steps S L) w0 = (None, w6)"
    and anc: "fst (subprocess S (ancestry_cmd S L ''python'') None (files w6)) = Some e"
  shows "run_steps (gui_steps S L) w0 =
           run_steps (last_two_steps S L) (snd (gui_step7_ancestry S L (enter Ancestry w6)))"
proof -
  from gui_step7_raises [OF anc] obtain w7 where
    "gui_step7_ancestry S L (enter Ancestry w6) = (None, w7)"
    by (cases "gui_step7_ancestry S L (enter Ancestry w6)") auto
  then show ?thesis
    by (simp add: gui_steps_def gui_optional_steps_def run_steps_append req)
qed

lemma pipeline_after_ancestry_failure:
  assumes req: "run_steps (pipeline_required_steps S L) w0 = (None, w6)"
    and anc: "fst (subprocess S (ancestry_cmd S L ''ancestry-py27'') None (files w6)) = Some e"
  shows "\<exists>w'. run_steps (pipeline_steps S L) w0 = (Some (Ancestry, e), w') \<and>
              trace w' = trace w6 @ [Ancestry]"
proof -
  have "fst (subprocess S (ancestry_cmd S L ''ancestry-py27'') None (files (enter Ancestry w6))) = Some e"
    using anc by (simp add: enter_def)
  from run_raises [OF this] show ?thesis
    by (simp add: pipeline_steps_def pipeline_last_steps_def run_steps_append req
        pipeline_step7_ancestry_def emit_def enter_def)
qed

text \<open>
  Claim C2, as amended. In prs\_gui.py: when the directories of the run were created, the
  required steps have run without an exception
  and the ancestry command raises \<open>e\<close>, the failure is printed, step 8 is entered, the run
  never ends as \<open>Failed Ancestry\<close>, and it ends as \<open>Completed\<close> exactly when neither step 8
  nor step 9 raises; then the steps after the hand-off are \<open>Ancestry\<close>, \<open>ParseAncestry\<close>,
  \<open>Report\<close>. In prs\_pipeline.py the ancestry command is under the outer handlers only: the
  run ends as \<open>Failed Ancestry e\<close> and neither step 8 nor step 9 is entered.
\<close>

theorem ancestry_failure_policy:
  "(config w \<noteq> NotDict \<and> vcf_arg a = Some v \<and> id_arg a = Some sid \<and> v \<noteq> [] \<and> sid \<noteq> [] \<and>
    gui_score_dir a (cfg_of (config w)) = d \<and> d \<noteq> [] \<and> path_exists (files w) d \<and>
    fst (gui_prepare S sid d w) = None \<and>
    run_steps (gui_required_steps S (gui_locals (cfg_of (config w)) v sid d))
      (snd (gui_prepare S sid d w)) = (None, w6) \<and>
    fst (subprocess S (ancestry_cmd S (gui_locals (cfg_of (config w)) v sid d) ''python'') None
           (files w6)) = Some e
    \<longrightarrow> AncestrySkipped e \<in> set (log (snd (gui_run_pipeline_cli S a w))) \<and>
        prefix (trace w6 @ [Ancestry, ParseAncestry]) (trace (snd (gui_run_pipeline_cli S a w))) \<and>
        (\<forall>x. fst (gui_run_pipeline_cli S a w) \<noteq> Inr (Failed Ancestry x)) \<and>
        ((fst (gui_run_pipeline_cli S a w) = Inr Completed) =
         (fst (run_steps (last_two_steps S (gui_locals (cfg_of (config w)) v sid d))
                 (snd (gui_step7_ancestry S (gui_locals (cfg_of (config w)) v sid d)
                         (enter Ancestry w6)))) = None)) \<and>
        (fst (gui_run_pipeline_cli S a w) = Inr Completed \<longrightarrow>
           trace (snd (gui_run_pipeline_cli S a w)) =
             trace w6 @ [Ancestry, ParseAncestry, Report])) \<and>
   (config w \<noteq> NotDict \<and> vcf_arg a = Some v \<and> id_arg a = Some sid \<and> v \<noteq> [] \<and> sid \<noteq> [] \<and>
    fst (pipeline_prepare S sid w) = None \<and>
    run_steps (pipeline_required_steps S (pipeline_locals (cfg_of (config w)) v sid))
      (snd (pipeline_prepare S sid w)) = (None, w6) \<and>
    fst (subprocess S (ancestry_cmd S (pipeline_locals (cfg_of (config w)) v sid) ''ancestry-py27'')
           None (files w6)) = Some e
    \<longrightarrow> (\<exists>w'. pipeline_run_pipeline_cli S a w = (Inr (Failed Ancestry e), w') \<and>
              trace w' = trace w6 @ [Ancestry]))"
proof (rule conjI; rule impI)
  let ?L = "gui_locals (cfg_of (config w)) v sid d"
  let ?w7 = "snd (gui_step7_ancestry S ?L (enter Ancestry w6))"
  let ?R = "gui_run_pipeline_cli S a w"
  assume a: "config w \<noteq> NotDict \<and> vcf_arg a = Some v \<and> id_arg a = Some sid \<and> v \<noteq> [] \<and> sid \<noteq> [] \<and>
    gui_score_dir a (cfg_of (config w)) = d \<and> d \<noteq> [] \<and> path_exists (files w) d \<and>
    fst (gui_prepare S sid d w) = None \<and>
    run_steps (gui_required_steps S ?L) (snd (gui_prepare S sid d w)) = (None, w6) \<and>
    fst (subprocess S (ancestry_cmd S ?L ''python'') None (files w6)) = Some e"
  then have req: "run_steps (gui_required_steps S ?L) (snd (gui_prepare S sid d w)) = (None, w6)"
    and anc: "fst (subprocess S (ancestry_cmd S ?L ''python'') None (files w6)) = Some e"
    by simp_all
  from a have cli: "gui_run_pipeline_cli S a w =
           (case run_steps (gui_steps S ?L) (snd (gui_prepare S sid d w)) of
              (None, w') \<Rightarrow>
                (Inr Completed, list_score_files S sid (emit (PipelineCompleted (prs_dir S sid)) w'))
            | (Some (st, e), w') \<Rightarrow> (Inr (Failed st e), handlers e w'))"
    by (intro gui_cli_try) simp_all
  note tail = gui_after_ancestry_failure [OF req anc]
  note s7 = gui_step7_raises [OF anc]
  note l2 = last_two_run [of ?w7 S ?L]
  obtain r w9 where r: "run_steps (last_two_steps S ?L) ?w7 = (r, w9)" by fastforce
  have R: "?R = (case r of None \<Rightarrow>
                   (Inr Completed, list_score_files S sid (emit (PipelineCompleted (prs_dir S sid)) w9))
                 | Some (st, x) \<Rightarrow> (Inr (Failed st x), handlers x w9))"
    by (simp add: cli tail r split: option.splits)
  have lg: "AncestrySkipped e \<in> set (log w9)" using s7 l2 r by auto
  have tr: "prefix (trace w6 @ [Ancestry, ParseAncestry]) (trace w9)" using s7 l2 r by simp
  show "AncestrySkipped e \<in> set (log (snd ?R)) \<and>
        prefix (trace w6 @ [Ancestry, ParseAncestry]) (trace (snd ?R)) \<and>
        (\<forall>x. fst ?R \<noteq> Inr (Failed Ancestry x)) \<and>
        ((fst ?R = Inr Completed) = (fst (run_steps (last_two_steps S ?L) ?w7) = None)) \<and>
        (fst ?R = Inr Completed \<longrightarrow> trace (snd ?R) = trace w6 @ [Ancestry, ParseAncestry, Report])"
  proof (cases r)
    case None
    have "AncestrySkipped e \<in> set (log (list_score_files S sid (emit (PipelineCompleted (prs_dir S sid)) w9)))"
      using lg list_score_files_log_trace [of "emit (PipelineCompleted (prs_dir S sid)) w9" S sid]
      by (auto simp: emit_def)
    moreover have "trace w9 = trace w6 @ [Ancestry, ParseAncestry, Report]"
      using l2 r None s7 by simp
    ultimately show ?thesis
      using None r by (simp add: R list_score_files_log_trace emit_def)
  next
    case (Some p)
    obtain st x where p: "p = (st, x)" by (cases p)
    have "st \<noteq> Ancestry" using l2 r Some p by simp
    moreover have "AncestrySkipped e \<in> set (log (handlers x w9))"
      using lg handlers_log by blast
    ultimately show ?thesis
      using Some p r tr by (simp add: R trace_handlers)
  qed
next
  let ?L = "pipeline_locals (cfg_of (config w)) v sid"
  assume a: "config w \<noteq> NotDict \<and> vcf_arg a = Some v \<and> id_arg a = Some sid \<and> v \<noteq> [] \<and> sid \<noteq> [] \<and>
    fst (pipeline_prepare S sid w) = None \<and>
    run_steps (pipeline_required_steps S ?L) (snd (pipeline_prepare S sid w)) = (None, w6) \<and>
    fst (subprocess S (ancestry_cmd S ?L ''ancestry-py27'') None (files w6)) = Some e"
  then have req: "run_steps (pipeline_required_steps S ?L) (snd (pipeline_prepare S sid w)) = (None, w6)"
    and anc: "fst (subprocess S (ancestry_cmd S ?L ''ancestry-py27'') None (files w6)) = Some e"
    by simp_all
  from a have cli: "pipeline_run_pipeline_cli S a w =
           (case run_steps (pipeline_steps S ?L) (snd (pipeline_prepare S sid w)) of
              (None, w') \<Rightarrow> (Inr Completed, emit (PipelineCompleted (prs_dir S sid)) w')
            | (Some (st, e), w') \<Rightarrow> (Inr (Failed st e), handlers e w'))"
    by (intro pipeline_cli_try) simp_all
  from pipeline_after_ancestry_failure [OF req anc] obtain w' where
    "run_steps (pipeline_steps S ?L) (snd (pipeline_prepare S sid w)) = (Some (Ancestry, e), w')"
    "trace w' = trace w6 @ [Ancestry]" by blast
  then show "\<exists>w'. pipeline_run_pipeline_cli S a w = (Inr (Failed Ancestry e), w') \<and>
              trace w' = trace w6 @ [Ancestry]"
    by (simp add: cli trace_handlers)
qed

text \<open>
  Two runs in which every required step succeeds and the ancestry command fails, and which
  do not reach \<open>Completed\<close>: under prs\_gui.py the ancestry parser is present and fails in
  turn, which ends the run at step 8; under prs\_pipeline.py the ancestry failure itself ends
  the run.
\<close>

theorem ancestry_failure_not_completed:
  "fst (gui_run_pipeline_cli docker_down_system run_args installed_world) =
     Inr (Failed ParseAncestry (CalledProcessError 1)) \<and>
   trace (snd (gui_run_pipeline_cli docker_down_system run_args installed_world)) =
     [Validate, Import, NormalizeIds, Score, Recode, Convert, Handoff, Ancestry, ParseAncestry] \<and>
   AncestrySkipped (CalledProcessError 125) \<in>
     set (log (snd (gui_run_pipeline_cli docker_down_system run_args installed_world))) \<and>
   fst (pipeline_run_pipeline_cli docker_down_system run_args installed_world) =
     Inr (Failed Ancestry (CalledProcessError 125)) \<and>
   trace (snd (pipeline_run_pipeline_cli docker_down_system run_args installed_world)) =
     [Validate, Import, NormalizeIds, Score, Recode, Convert, Handoff, Ancestry]"
  by code_simp

theorem ancestry_failure_policy_witness:
  "fst (gui_run_pipeline_cli no_docker_system run_args installed_world) = Inr Completed \<and>
   AncestrySkipped (FileNotFoundError ''docker'') \<in>
     set (log (snd (gui_run_pipeline_cli no_docker_system run_args installed_world))) \<and>
   trace (snd (gui_run_pipeline_cli no_docker_system run_args installed_world)) =
     [Validate, Import, NormalizeIds, Score, Recode, Convert, Handoff, Ancestry, ParseAncestry, Report] \<and>
   fst (pipeline_run_pipeline_cli no_docker_system run_args installed_world) =
     Inr (Failed Ancestry (FileNotFoundError ''docker''))"
proof -
  let ?w = installed_world and ?a = run_args and ?S = no_docker_system
  let ?v = "''/data/HB0402.vcf''" and ?sid = "''HB0402''" and ?d = "''/scores''"
  let ?e = "FileNotFoundError ''docker''"
  let ?G = "gui_locals (cfg_of (config ?w)) ?v ?sid ?d"
  let ?P = "pipeline_locals (cfg_of (config ?w)) ?v ?sid"
  let ?g6 = "snd (run_steps (gui_required_steps ?S ?G) (snd (gui_prepare ?S ?sid ?d ?w)))"
  let ?p6 = "snd (run_steps (pipeline_required_steps ?S ?P) (snd (pipeline_prepare ?S ?sid ?w)))"
  have g0: "fst (gui_prepare ?S ?sid ?d ?w) = None" by code_simp
  have p0: "fst (pipeline_prepare ?S ?sid ?w) = None" by code_simp
  have "fst (run_steps (gui_required_steps ?S ?G) (snd (gui_prepare ?S ?sid ?d ?w))) = None"
    by code_simp
  then have g6: "run_steps (gui_required_steps ?S ?G) (snd (gui_prepare ?S ?sid ?d ?w)) = (None, ?g6)"
    by (simp add: prod_eq_iff)
  have "fst (run_steps (pipeline_required_steps ?S ?P) (snd (pipeline_prepare ?S ?sid ?w))) = None"
    by code_simp
  then have p6: "run_steps (pipeline_required_steps ?S ?P) (snd (pipeline_prepare ?S ?sid ?w)) = (None, ?p6)"
    by (simp add: prod_eq_iff)
  have args: "config ?w \<noteq> NotDict \<and> vcf_arg ?a = Some ?v \<and> id_arg ?a = Some ?sid \<and> ?v \<noteq> [] \<and>
              ?sid \<noteq> [] \<and> gui_score_dir ?a (cfg_of (config ?w)) = ?d \<and> ?d \<noteq> [] \<and>
              path_exists (files ?w) ?d"
    by code_simp
  have ga: "fst (subprocess ?S (ancestry_cmd ?S ?G ''python'') None (files ?g6)) = Some ?e"
    by code_simp
  have pa: "fst (subprocess ?S (ancestry_cmd ?S ?P ''ancestry-py27'') None (files ?p6)) = Some ?e"
    by code_simp
  have tail: "fst (run_steps (last_two_steps ?S ?G)
                 (snd (gui_step7_ancestry ?S ?G (enter Ancestry ?g6)))) = None"
    by code_simp
  have t6: "trace ?g6 = [Validate, Import, NormalizeIds, Score, Recode, Convert, Handoff]"
    by code_simp
  from ancestry_failure_policy [of ?w ?a ?v ?sid ?d ?S ?g6 ?e] args g0 g6 ga tail
  have "fst (gui_run_pipeline_cli ?S ?a ?w) = Inr Completed"
    and "AncestrySkipped ?e \<in> set (log (snd (gui_run_pipeline_cli ?S ?a ?w)))"
    and "trace (snd (gui_run_pipeline_cli ?S ?a ?w)) = trace ?g6 @ [Ancestry, ParseAncestry, Report]"
    by blast+
  moreover from ancestry_failure_policy [of ?w ?a ?v ?sid ?d ?S ?p6 ?e] args p0 p6 pa
  have "fst (pipeline_run_pipeline_cli ?S ?a ?w) = Inr (Failed Ancestry ?e)"
    by fastforce
  ultimately show ?thesis by (simp add: t6)
qed

subsection \<open>Exit status\<close>

lemma pipeline_cli_escapes:
  "(\<exists>x. fst (pipeline_run_pipeline_cli S a w) = Inl x) =
     (config w = NotDict \<or>
      (\<exists>v sid e. vcf_arg a = Some v \<and> id_arg a = Some sid \<and> v \<noteq> [] \<and> sid \<noteq> [] \<and>
                 fst (pipeline_prepare S sid w) = Some e))"
proof (cases "config w = NotDict")
  case True
  then show ?thesis by (simp add: pipeline_run_pipeline_cli_def)
next
  case c: False
  show ?thesis
  proof (cases "\<exists>v sid. vcf_arg a = Some v \<and> id_arg a = Some sid \<and> v \<noteq> [] \<and> sid \<noteq> []")
    case False
    with c show ?thesis
      by (auto simp: pipeline_run_pipeline_cli_def split: option.splits)
  next
    case True
    then obtain v sid where args: "vcf_arg a = Some v" "id_arg a = Some sid" "v \<noteq> []" "sid \<noteq> []"
      by blast
    show ?thesis
    proof (cases "fst (pipeline_prepare S sid w)")
      case None
      from pipeline_cli_try [OF c args None] have "\<nexists>x. fst (pipeline_run_pipeline_cli S a w) = Inl x"
        by (auto split: prod.splits option.splits)
      with c args None show ?thesis by auto
    next
      case (Some e)
      then obtain w0 where "pipeline_prepare S sid w = (Some e, w0)"
        by (cases "pipeline_prepare S sid w") auto
      then have "fst (pipeline_run_pipeline_cli S a w) = Inl e"
        using c args by (simp add: pipeline_run_pipeline_cli_def)
      with c args Some show ?thesis by auto
    qed
  qed
qed

lemma gui_cli_escapes:
  "(\<exists>x. fst (gui_run_pipeline_cli S a w) = Inl x) =
     (config w = NotDict \<or>
      (\<exists>v sid e. vcf_arg a = Some v \<and> id_arg a = Some sid \<and> v \<noteq> [] \<and> sid \<noteq> [] \<and>
                 gui_score_dir a (cfg_of (config w)) \<noteq> [] \<and>
                 path_exists (files w) (gui_score_dir a (cfg_of (config w))) \<and>
                 fst (gui_prepare S sid (gui_score_dir a (cfg_of (config w))) w) = Some e))"
proof (cases "config w = NotDict")
  case True
  then show ?thesis by (simp add: gui_run_pipeline_cli_def)
next
  case c: False
  let ?d = "gui_score_dir a (cfg_of (config w))"
  show ?thesis
  proof (cases "\<exists>v sid. vcf_arg a = Some v \<and> id_arg a = Some sid \<and> v \<noteq> [] \<and> sid \<noteq> [] \<and>
                  ?d \<noteq> [] \<and> path_exists (files w) ?d")
    case False
    with c show ?thesis
      by (auto simp: gui_run_pipeline_cli_def Let_def split: option.splits)
  next
    case True
    then obtain v sid where args: "vcf_arg a = Some v" "id_arg a = Some sid" "v \<noteq> []" "sid \<noteq> []"
      and dir: "?d \<noteq> []" "path_exists (files w) ?d"
      by blast
    show ?thesis
    proof (cases "fst (gui_prepare S sid ?d w)")
      case None
      from gui_cli_try [OF c args refl dir None] have "\<nexists>x. fst (gui_run_pipeline_cli S a w) = Inl x"
        by (auto split: prod.splits option.splits)
      with c args dir None show ?thesis by auto
    next
      case (Some e)
      then obtain w0 where "gui_prepare S sid ?d w = (Some e, w0)"
        by (cases "gui_prepare S sid ?d w") auto
      then have "fst (gui_run_pipeline_cli S a w) = Inl e"
        using c args dir by (simp add: gui_run_pipeline_cli_def Let_def)
      with c args dir Some show ?thesis by auto
    qed
  qed
qed

lemma conversion_main_exit:
  "fst (conversion_main P b cw) = (if fst (convert_genotypes P b cw) then 0 else 1)"
  by (auto simp: conversion_main_def split: prod.splits bool.splits)

lemma pipeline_cli_failed:
  assumes "config w \<noteq> NotDict" and "vcf_arg a = Some v" and "id_arg a = Some sid"
    and "v \<noteq> []" and "sid \<noteq> []" and "fst (pipeline_prepare S sid w) = None"
    and "fst (run_steps (pipeline_steps S (pipeline_locals (cfg_of (config w)) v sid))
               (snd (pipeline_prepare S sid w))) = Some (st, e)"
  shows "fst (pipeline_run_pipeline_cli S a w) = Inr (Failed st e)"
  using assms(7) unfolding pipeline_cli_try [OF assms(1-6)]
  by (auto split: prod.splits option.splits)

lemma gui_cli_failed:
  assumes "config w \<noteq> NotDict" and "vcf_arg a = Some v" and "id_arg a = Some sid"
    and "v \<noteq> []" and "sid \<noteq> []"
    and "gui_score_dir a (cfg_of (config w)) = d" and "d \<noteq> []" and "path_exists (files w) d"
    and "fst (gui_prepare S sid d w) = None"
    and "fst (run_steps (gui_steps S (gui_locals (cfg_of (config w)) v sid d))
               (snd (gui_prepare S sid d w))) = Some (st, e)"
  shows "fst (gui_run_pipeline_cli S a w) = Inr (Failed st e)"
  using assms(10) unfolding gui_cli_try [OF assms(1-9)]
  by (auto split: prod.splits option.splits)

lemma pipeline_cli_raises:
  "config w = NotDict \<Longrightarrow> \<exists>x. fst (pipeline_run_pipeline_cli S a w) = Inl x"
  "config w \<noteq> NotDict \<Longrightarrow> vcf_arg a = Some v \<Longrightarrow> id_arg a = Some sid \<Longrightarrow> v \<noteq> [] \<Longrightarrow> sid \<noteq> [] \<Longrightarrow>
   fst (pipeline_prepare S sid w) = Some x \<Longrightarrow> \<exists>x. fst (pipeline_run_pipeline_cli S a w) = Inl x"
  unfolding pipeline_cli_escapes by blast+

lemma gui_cli_raises:
  "config w = NotDict \<Longrightarrow> \<exists>x. fst (gui_run_pipeline_cli S a w) = Inl x"
  "config w \<noteq> NotDict \<Longrightarrow> vcf_arg a = Some v \<Longrightarrow> id_arg a = Some sid \<Longrightarrow> v \<noteq> [] \<Longrightarrow> sid \<noteq> [] \<Longrightarrow>
   gui_score_dir a (cfg_of (config w)) = d \<Longrightarrow> d \<noteq> [] \<Longrightarrow> path_exists (files w) d \<Longrightarrow>
   fst (gui_prepare S sid d w) = Some x \<Longrightarrow> \<exists>x. fst (gui_run_pipeline_cli S a w) = Inl x"
  unfolding gui_cli_escapes by blast+

text \<open>
  Claim C1, as amended. The converter process exits with 0 when the conversion succeeds and
  with 1 when it fails. An orchestrator process exits with 0 when \<open>run_pipeline_cli\<close>
  returns and with 1 when an exception leaves it (or, for prs\_gui.py, the module body,
  which creates the base directories). \<open>run_pipeline_cli\<close> returns also when a step of the
  \<open>try\<close> block raises, whatever the step and the exception: the run ends as \<open>Failed\<close> and
  the exit status is 0. An exception leaves it when it is raised outside the \<open>try\<close> block:
  when the configuration file holds JSON but no object, and when one of the directories of
  the run cannot be created.
\<close>

theorem exit_codes:
  "fst (conversion_main P b cw) = (if fst (convert_genotypes P b cw) then 0 else 1) \<and>
   fst (pipeline_main S a w) =
     (case fst (pipeline_run_pipeline_cli S a (pipeline_module_init w)) of
        Inl x \<Rightarrow> 1 | Inr r \<Rightarrow> 0) \<and>
   fst (gui_main S a w) =
     (case gui_module_init S w of
        (Some x, g) \<Rightarrow> 1
      | (None, g) \<Rightarrow> (case fst (gui_run_pipeline_cli S a g) of Inl x \<Rightarrow> 1 | Inr r \<Rightarrow> 0)) \<and>
   (config u \<noteq> NotDict \<and> vcf_arg a = Some v \<and> id_arg a = Some sid \<and> v \<noteq> [] \<and> sid \<noteq> [] \<and>
    fst (pipeline_prepare S sid u) = None \<and>
    fst (run_steps (pipeline_steps S (pipeline_locals (cfg_of (config u)) v sid))
           (snd (pipeline_prepare S sid u))) = Some (st, e)
    \<longrightarrow> fst (pipeline_run_pipeline_cli S a u) = Inr (Failed st e)) \<and>
   (config u \<noteq> NotDict \<and> vcf_arg a = Some v \<and> id_arg a = Some sid \<and> v \<noteq> [] \<and> sid \<noteq> [] \<and>
    gui_score_dir a (cfg_of (config u)) = d \<and> d \<noteq> [] \<and> path_exists (files u) d \<and>
    fst (gui_prepare S sid d u) = None \<and>
    fst (run_steps (gui_steps S (gui_locals (cfg_of (config u)) v sid d))
           (snd (gui_prepare S sid d u))) = Some (st, e)
    \<longrightarrow> fst (gui_run_pipeline_cli S a u) = Inr (Failed st e)) \<and>
   (config u = NotDict \<longrightarrow>
      (\<exists>x. fst (pipeline_run_pipeline_cli S a u) = Inl x) \<and>
      (\<exists>x. fst (gui_run_pipeline_cli S a u) = Inl x)) \<and>
   (config u \<noteq> NotDict \<and> vcf_arg a = Some v \<and> id_arg a = Some sid \<and> v \<noteq> [] \<and> sid \<noteq> [] \<and>
    fst (pipeline_prepare S sid u) = Some y
    \<longrightarrow> (\<exists>x. fst (pipeline_run_pipeline_cli S a u) = Inl x)) \<and>
   (config u \<noteq> NotDict \<and> vcf_arg a = Some v \<and> id_arg a = Some sid \<and> v \<noteq> [] \<and> sid \<noteq> [] \<and>
    gui_score_dir a (cfg_of (config u)) = d \<and> d \<noteq> [] \<and> path_exists (files u) d \<and>
    fst (gui_prepare S sid d u) = Some y
    \<longrightarrow> (\<exists>x. fst (gui_run_pipeline_cli S a u) = Inl x))"
proof -
  have m1: "fst (pipeline_main S a w) =
     (case fst (pipeline_run_pipeline_cli S a (pipeline_module_init w)) of
        Inl x \<Rightarrow> 1 | Inr r \<Rightarrow> 0)"
    by (auto simp: pipeline_main_def split: prod.splits sum.splits)
  have m2: "fst (gui_main S a w) =
     (case gui_module_init S w of
        (Some x, g) \<Rightarrow> 1
      | (None, g) \<Rightarrow> (case fst (gui_run_pipeline_cli S a g) of Inl x \<Rightarrow> 1 | Inr r \<Rightarrow> 0))"
    by (auto simp: gui_main_def split: prod.splits sum.splits option.splits)
  show ?thesis
    using m1 m2 conversion_main_exit [of P b cw]
      pipeline_cli_failed [where w = u and a = a and v = v and sid = sid and S = S and st = st and e = e]
      gui_cli_failed [where w = u and a = a and v = v and sid = sid and d = d and S = S and st = st and e = e]
      pipeline_cli_raises(1) [where w = u and S = S and a = a]
      pipeline_cli_raises(2) [where w = u and a = a and v = v and sid = sid and S = S and x = y]
      gui_cli_raises(1) [where w = u and S = S and a = a]
      gui_cli_raises(2) [where w = u and a = a and v = v and sid = sid and d = d and S = S and x = y]
    by blast
qed

text \<open>
  Under prs\_pipeline.py, a run whose import command exits non-zero and a run whose input
  file is missing both end as \<open>Failed\<close>, and the process exits with 0, not 1.
\<close>

theorem failed_run_exits_zero:
  "fst (pipeline_run_pipeline_cli import_fail_system run_args (pipeline_module_init installed_world)) =
     Inr (Failed Import (CalledProcessError 1)) \<and>
   fst (pipeline_main import_fail_system run_args installed_world) = 0 \<and>
   fst (pipeline_run_pipeline_cli quiet_system (run_args\<lparr>vcf_arg := Some ''/data/missing.vcf''\<rparr>)
          (pipeline_module_init installed_world)) =
     Inr (Failed Validate (FileNotFoundError ''VCF file not found: /data/missing.vcf'')) \<and>
   fst (pipeline_main quiet_system (run_args\<lparr>vcf_arg := Some ''/data/missing.vcf''\<rparr>)
          installed_world) = 0"
  by code_simp

theorem exit_codes_witness:
  "fst (run_steps (pipeline_steps import_fail_system
                    (pipeline_locals (cfg_of (config installed_world)) ''/data/HB0402.vcf'' ''HB0402''))
          (snd (pipeline_prepare import_fail_system ''HB0402'' installed_world))) =
     Some (Import, CalledProcessError 1) \<and>
   fst (pipeline_run_pipeline_cli import_fail_system run_args installed_world) =
     Inr (Failed Import (CalledProcessError 1)) \<and>
   fst (pipeline_main import_fail_system run_args installed_world) = 0 \<and>
   fst (gui_run_pipeline_cli import_fail_system run_args installed_world) =
     Inr (Failed Import (CalledProcessError 1)) \<and>
   fst (conversion_main pandas_nan_text ''HT.bim'' scenario_files) = 0 \<and>
   fst (conversion_main pandas_nan_text ''HT.bim'' short_files) = 1 \<and>
   fst (gui_main quiet_system run_args (installed_world\<lparr>config := NotDict\<rparr>)) = 1 \<and>
   fst (pipeline_prepare quiet_system ''individual_conversion.py'' installed_world) =
     Some (FileExistsError ''/home/u/Desktop/PRS_New/VCF_Files/individual_conversion.py'') \<and>
   fst (pipeline_main quiet_system template_id_args installed_world) = 1 \<and>
   fst (gui_main quiet_system template_id_args installed_world) = 1"
proof -
  let ?w = installed_world and ?v = "''/data/HB0402.vcf''" and ?d = "''/scores''"
  let ?n = "installed_world\<lparr>config := NotDict\<rparr>"
  let ?F = import_fail_system and ?Q = quiet_system
  let ?e = "CalledProcessError 1"
  let ?y = "FileExistsError ''/home/u/Desktop/PRS_New/VCF_Files/individual_conversion.py''"
  have init: "pipeline_module_init ?w = ?w" by (simp add: pipeline_module_init_def installed_world_def)
  have args: "config ?w \<noteq> NotDict \<and> vcf_arg run_args = Some ?v \<and> id_arg run_args = Some ''HB0402'' \<and>
      ?v \<noteq> [] \<and> ''HB0402'' \<noteq> []"
    and dir: "gui_score_dir run_args (cfg_of (config ?w)) = ?d \<and> ?d \<noteq> [] \<and> path_exists (files ?w) ?d"
    by code_simp+
  have p0: "fst (pipeline_prepare ?F ''HB0402'' ?w) = None" by code_simp
  have g0: "fst (gui_prepare ?F ''HB0402'' ?d ?w) = None" by code_simp
  have ps: "fst (run_steps (pipeline_steps ?F (pipeline_locals (cfg_of (config ?w)) ?v ''HB0402''))
                  (snd (pipeline_prepare ?F ''HB0402'' ?w))) = Some (Import, ?e)"
    by code_simp
  have gs: "fst (run_steps (gui_steps ?F (gui_locals (cfg_of (config ?w)) ?v ''HB0402'' ?d))
                  (snd (gui_prepare ?F ''HB0402'' ?d ?w))) = Some (Import, ?e)"
    by code_simp
  have r1: "fst (pipeline_run_pipeline_cli ?F run_args ?w) = Inr (Failed Import ?e)"
    using exit_codes [where u = ?w and a = run_args and v = ?v and sid = "''HB0402''" and S = ?F
        and st = Import and e = ?e,
        THEN conjunct2, THEN conjunct2, THEN conjunct2, THEN conjunct1] args p0 ps
    by blast
  have r2: "fst (gui_run_pipeline_cli ?F run_args ?w) = Inr (Failed Import ?e)"
    using exit_codes [where u = ?w and a = run_args and v = ?v and sid = "''HB0402''" and S = ?F
        and d = ?d and st = Import and e = ?e,
        THEN conjunct2, THEN conjunct2, THEN conjunct2, THEN conjunct2, THEN conjunct1] args dir g0 gs
    by blast
  have r3: "fst (pipeline_main ?F run_args ?w) = 0"
    using exit_codes [where S = ?F and a = run_args and w = ?w,
        THEN conjunct2, THEN conjunct1] r1 by (simp add: init)
  have c1: "fst (convert_genotypes pandas_nan_text ''HT.bim'' scenario_files)" by code_simp
  have c2: "\<not> fst (convert_genotypes pandas_nan_text ''HT.bim'' short_files)" by code_simp
  have r4: "fst (conversion_main pandas_nan_text ''HT.bim'' scenario_files) = 0"
    using exit_codes [where P = pandas_nan_text and b = "''HT.bim''" and cw = scenario_files,
        THEN conjunct1] c1 by simp
  have r5: "fst (conversion_main pandas_nan_text ''HT.bim'' short_files) = 1"
    using exit_codes [where P = pandas_nan_text and b = "''HT.bim''" and cw = short_files,
        THEN conjunct1] c2 by simp
  have targs: "config ?w \<noteq> NotDict \<and> vcf_arg template_id_args = Some ?v \<and>
      id_arg template_id_args = Some ''individual_conversion.py'' \<and>
      ?v \<noteq> [] \<and> ''individual_conversion.py'' \<noteq> []"
    by code_simp
  have py: "fst (pipeline_prepare ?Q ''individual_conversion.py'' ?w) = Some ?y" by code_simp
  obtain x where "fst (pipeline_run_pipeline_cli ?Q template_id_args ?w) = Inl x"
    using exit_codes [where u = ?w and a = template_id_args and v = ?v
        and sid = "''individual_conversion.py''" and S = ?Q and y = ?y,
        THEN conjunct2, THEN conjunct2, THEN conjunct2, THEN conjunct2, THEN conjunct2, THEN conjunct2, THEN conjunct1] targs py
    by blast
  then have r6: "fst (pipeline_main ?Q template_id_args ?w) = 1"
    using exit_codes [where S = ?Q and a = template_id_args and w = ?w,
        THEN conjunct2, THEN conjunct1] by (simp add: init)
  have "fst (gui_module_init ?Q ?w) = None" by code_simp
  then obtain g where gi: "gui_module_init ?Q ?w = (None, g)"
    by (cases "gui_module_init ?Q ?w") auto
  then have gsnd: "snd (gui_module_init ?Q ?w) = g" by simp
  have "config (snd (gui_module_init ?Q ?w)) \<noteq> NotDict \<and>
        gui_score_dir template_id_args (cfg_of (config (snd (gui_module_init ?Q ?w)))) = ?d \<and>
        ?d \<noteq> [] \<and> path_exists (files (snd (gui_module_init ?Q ?w))) ?d \<and>
        fst (gui_prepare ?Q ''individual_conversion.py'' ?d (snd (gui_module_init ?Q ?w))) = Some ?y"
    by code_simp
  then have gt: "config g \<noteq> NotDict \<and> gui_score_dir template_id_args (cfg_of (config g)) = ?d \<and>
        ?d \<noteq> [] \<and> path_exists (files g) ?d \<and>
        fst (gui_prepare ?Q ''individual_conversion.py'' ?d g) = Some ?y"
    unfolding gsnd .
  obtain x where "fst (gui_run_pipeline_cli ?Q template_id_args g) = Inl x"
    using exit_codes [where u = g and a = template_id_args and v = ?v
        and sid = "''individual_conversion.py''" and S = ?Q and d = ?d and y = ?y,
        THEN conjunct2, THEN conjunct2, THEN conjunct2, THEN conjunct2, THEN conjunct2, THEN conjunct2, THEN conjunct2] targs gt
    by blast
  then have r7: "fst (gui_main ?Q template_id_args ?w) = 1"
    using exit_codes [where S = ?Q and a = template_id_args and w = ?w,
        THEN conjunct2, THEN conjunct2, THEN conjunct1] by (simp add: gi)
  have "fst (gui_module_init ?Q ?n) = None" by code_simp
  then obtain h where hi: "gui_module_init ?Q ?n = (None, h)"
    by (cases "gui_module_init ?Q ?n") auto
  then have hsnd: "snd (gui_module_init ?Q ?n) = h" by simp
  have "config (snd (gui_module_init ?Q ?n)) = NotDict" by code_simp
  then have hc: "config h = NotDict" unfolding hsnd .
  obtain x where "fst (gui_run_pipeline_cli ?Q run_args h) = Inl x"
    using exit_codes [where u = h and S = ?Q and a = run_args,
        THEN conjunct2, THEN conjunct2, THEN conjunct2, THEN conjunct2, THEN conjunct2, THEN conjunct1] hc by blast
  then have r8: "fst (gui_main ?Q run_args ?n) = 1"
    using exit_codes [where S = ?Q and a = run_args and w = ?n,
        THEN conjunct2, THEN conjunct2, THEN conjunct1] by (simp add: hi)
  from ps r1 r2 r3 r4 r5 r6 r7 r8 py show ?thesis by simp
qed

subsection \<open>A conversion that leaves no output (prs\_gui.py)\<close>

lemma path_join_relative:
  "\<exists>s. \<forall>b. \<not> prefix ''/'' b \<longrightarrow> path_join a b = a @ s @ b"
proof (cases "a = [] \<or> suffix ''/'' a")
  case True
  then have "\<forall>b. \<not> prefix ''/'' b \<longrightarrow> path_join a b = a @ [] @ b"
    by (simp add: path_join_def)
  then show ?thesis by blast
next
  case False
  then have "\<forall>b. \<not> prefix ''/'' b \<longrightarrow> path_join a b = a @ ''/'' @ b"
    by (simp add: path_join_def)
  then show ?thesis by blast
qed

lemma local_geno_neq_ancestry_geno:
  assumes "\<not> prefix ''/'' sid"
  shows "local_geno S sid \<noteq> ancestry_geno S"
proof -
  let ?n = "''individual_genotypes2.input''"
  obtain s1 where s1: "\<And>b. \<not> prefix ''/'' b \<Longrightarrow> path_join (BASE_DIR S) b = BASE_DIR S @ s1 @ b"
    using path_join_relative [of "BASE_DIR S"] by blast
  obtain s2 where s2: "\<And>b. \<not> prefix ''/'' b \<Longrightarrow>
      path_join (BASE_DIR S @ s1 @ ''VCF_Files'') b = (BASE_DIR S @ s1 @ ''VCF_Files'') @ s2 @ b"
    using path_join_relative [of "BASE_DIR S @ s1 @ ''VCF_Files''"] by blast
  obtain s3 where s3: "\<And>b. \<not> prefix ''/'' b \<Longrightarrow>
      path_join (vcf_dir S sid) b = vcf_dir S sid @ s3 @ b"
    using path_join_relative [of "vcf_dir S sid"] by blast
  obtain s4 where s4: "\<And>b. \<not> prefix ''/'' b \<Longrightarrow>
      path_join (BASE_DIR S @ s1 @ ''Ancestry'') b = (BASE_DIR S @ s1 @ ''Ancestry'') @ s4 @ b"
    using path_join_relative [of "BASE_DIR S @ s1 @ ''Ancestry''"] by blast
  have v: "vcf_dir S sid = BASE_DIR S @ s1 @ ''VCF_Files'' @ s2 @ sid"
    using s1 [of "''VCF_Files''"] s2 [OF assms] by (simp add: vcf_dir_def os_path_join_def)
  have l: "local_geno S sid = BASE_DIR S @ s1 @ ''VCF_Files'' @ s2 @ sid @ s3 @ ?n"
    using s3 [of ?n] v by (simp add: local_geno_def os_path_join_def)
  have a: "ancestry_geno S = BASE_DIR S @ s1 @ ''Ancestry'' @ s4 @ ?n"
    using s1 [of "''Ancestry''"] s4 [of ?n]
    by (simp add: ancestry_geno_def ancestry_dir_def os_path_join_def)
  show ?thesis unfolding l a by simp
qed








end
